theory Spec2Isabelle
  imports Complex_Main "HOL-Library.Word" "HOL-Library.Multiset"
begin

section \<open>JavaScript values\<close>

text \<open>
  A JavaScript string is a sequence of UTF-16 code units. Source literals are written
  with \<open>js\<close>.
\<close>

type_synonym jsstring = "16 word list"

definition js :: "string \<Rightarrow> jsstring" where
  "js s = map of_char s"

text \<open>
  The code units that \<open>String.prototype.trim\<close> strips: ECMAScript WhiteSpace
  (TAB, VT, FF, SP, NBSP, ZWNBSP and the category Zs) and LineTerminator
  (LF, CR, LS, PS).
\<close>

definition isWhiteSpace :: "16 word \<Rightarrow> bool" where
  "isWhiteSpace c \<longleftrightarrow>
     c = 0x0009 \<or> c = 0x000A \<or> c = 0x000B \<or> c = 0x000C \<or> c = 0x000D \<or> c = 0x0020
     \<or> c = 0x00A0 \<or> c = 0x1680 \<or> (0x2000 \<le> c \<and> c \<le> 0x200A) \<or> c = 0x2028
     \<or> c = 0x2029 \<or> c = 0x202F \<or> c = 0x205F \<or> c = 0x3000 \<or> c = 0xFEFF"

definition trim :: "jsstring \<Rightarrow> jsstring" where
  "trim s = rev (dropWhile isWhiteSpace (rev (dropWhile isWhiteSpace s)))"

fun join :: "jsstring \<Rightarrow> jsstring list \<Rightarrow> jsstring" where
  "join sep [] = []"
| "join sep [x] = x"
| "join sep (x # y # ys) = x @ sep @ join sep (y # ys)"

definition startsWith :: "jsstring \<Rightarrow> jsstring \<Rightarrow> bool" where
  "startsWith s p \<longleftrightarrow> take (length p) s = p"

definition substring :: "jsstring \<Rightarrow> nat \<Rightarrow> jsstring" where
  "substring s n = drop n s"

text \<open>
  A parsed JSON value. A number is a double; the model keeps the finite values, as
  rationals. A property that is absent reads as \<open>undefined\<close>, which is \<open>None\<close>
  of \<open>json option\<close>.
\<close>

datatype json =
    JNull
  | JBool bool
  | JNum rat
  | JStr jsstring
  | JArr "json list"
  | JObj "(jsstring \<times> json) list"

fun truthy :: "json option \<Rightarrow> bool" where
  "truthy None = False"
| "truthy (Some JNull) = False"
| "truthy (Some (JBool b)) = b"
| "truthy (Some (JNum n)) = (n \<noteq> 0)"
| "truthy (Some (JStr s)) = (s \<noteq> [])"
| "truthy (Some (JArr xs)) = True"
| "truthy (Some (JObj fs)) = True"

text \<open>An environment variable is truthy when it is set and not the empty string.\<close>

fun truthy_str :: "jsstring option \<Rightarrow> bool" where
  "truthy_str None = False"
| "truthy_str (Some s) = (s \<noteq> [])"

text \<open>
  The message of an \<open>Error\<close>. Messages built by template literals keep their parts;
  \<open>StringOf j\<close> is \<open>String(j)\<close> of a JSON value that is not a string, and
  \<open>EngineMessage\<close> is the text the engine gives its own TypeError or SyntaxError.
\<close>

datatype message =
    Text jsstring
  | StringOf json
  | HttpError nat
  | ElevenLabsApiError nat jsstring
  | FailedToGenerateScript
  | EngineMessage

text \<open>A thrown value: an instance of \<open>Error\<close> with its message, or anything else.\<close>

datatype thrown = ErrorObj message | NonError

fun string_of :: "json \<Rightarrow> message" where
  "string_of (JStr s) = Text s"
| "string_of j = StringOf j"

text \<open>
  Reading a property \<open>v.k\<close>. Reading from \<open>null\<close> throws a TypeError; a primitive or an
  array has none of the property names read in this program (\<open>text\<close>, \<open>error\<close>).
\<close>

fun get_prop :: "json \<Rightarrow> jsstring \<Rightarrow> thrown + json option" where
  "get_prop JNull k = Inl (ErrorObj EngineMessage)"
| "get_prop (JObj fs) k = Inr (map_of fs k)"
| "get_prop v k = Inr None"

section \<open>Responses, external services and configuration\<close>

record auth_user =
  uid :: jsstring
  email :: "jsstring option"

record GenerateScriptRequest =
  topic :: jsstring
  durationMinutes :: rat
  style :: jsstring

text \<open>A row of the table \<open>scripts\<close> of the schema, and the columns the list query selects.\<close>

record script_row =
  row_id :: jsstring
  user_id :: jsstring
  row_topic :: jsstring
  duration_minutes :: rat
  row_style :: jsstring
  script_data :: "json list"
  created_at :: nat
  updated_at :: nat

record script_summary =
  sum_id :: jsstring
  sum_topic :: jsstring
  sum_duration_minutes :: rat
  sum_style :: jsstring
  sum_created_at :: nat
  sum_updated_at :: nat

datatype payload =
    JsonError message
  | JsonErrorStack message "jsstring option"
  | JsonScript "json list" "jsstring option"
  | JsonScripts "script_summary list"
  | JsonRecord script_row
  | JsonMessage jsstring
  | JsonHealth nat
  | Audio "8 word list"
  | PlainText jsstring
  | NoBody

record response =
  status :: nat
  headers :: "(string \<times> string) list"
  payload :: payload

definition json_response :: "nat \<Rightarrow> payload \<Rightarrow> response" where
  "json_response code p = \<lparr>status = code, headers = [], payload = p\<rparr>"

definition error_response :: "nat \<Rightarrow> string \<Rightarrow> response" where
  "error_response code m = json_response code (JsonError (Text (js m)))"

text \<open>The calls the store client sends, and the ways a call can fail to answer.\<close>

datatype store_call =
    Insert jsstring jsstring rat jsstring "json list"
  | SelectSummaries jsstring
  | SelectScript jsstring jsstring
  | SelectId jsstring jsstring
  | DeleteScript jsstring jsstring

datatype pg_fault =
    PgError jsstring
  | PgNoData
  | PgThrows thrown

datatype auth_outcome =
    AuthUser auth_user
  | AuthError
  | AuthNoUser
  | AuthThrows

datatype fetch_outcome =
    FetchRejects thrown
  | FetchResponse nat "json option"

datatype tts_outcome =
    TtsRejects thrown
  | TtsResponse nat jsstring "8 word list"

text \<open>
  Everything the program consumes and does not define: the engine's Unicode
  lower-casing, and the answers of the identity provider, of the script-generation
  service, of the speech-synthesis service and of the relational store.
  \<open>FetchResponse s b\<close> is a response of status \<open>s\<close> whose body parses to \<open>b\<close>
  (\<open>None\<close> when it is not JSON); \<open>TtsResponse s t a\<close> has the body \<open>t\<close> as text
  and \<open>a\<close> as bytes. \<open>store_fault\<close> is \<open>None\<close> when the store carries a call out.
\<close>

record platform =
  toLowerCase :: "jsstring \<Rightarrow> jsstring"
  getUser :: "jsstring \<Rightarrow> auth_outcome"
  fetch_generate :: "GenerateScriptRequest \<Rightarrow> fetch_outcome"
  fetch_tts :: "jsstring \<Rightarrow> jsstring \<Rightarrow> jsstring \<Rightarrow> tts_outcome"
  store_fault :: "store_call \<Rightarrow> pg_fault option"
  gen_random_uuid :: "script_row list \<Rightarrow> jsstring"

datatype ext_call =
    GetUser jsstring
  | Generate GenerateScriptRequest
  | TextToSpeech jsstring jsstring jsstring
  | Store store_call

text \<open>
  The environment. \<open>research_supabase\<close> and \<open>scripts_supabase\<close> say whether the
  module-level store client of the generate-research and of the scripts route module
  is non-null; the auth middleware builds its own client lazily from the two variables.
  \<open>FRONTEND_URL\<close> and \<open>NODE_ENV\<close> are read by \<open>server.ts\<close> and by the error handler.
\<close>

record config =
  SUPABASE_URL :: "jsstring option"
  SUPABASE_SERVICE_KEY :: "jsstring option"
  research_supabase :: bool
  scripts_supabase :: bool
  ELEVENLABS_API_KEY :: "jsstring option"
  ELEVENLABS_HOST_VOICE_ID :: "jsstring option"
  FRONTEND_URL :: "jsstring option"
  NODE_ENV :: "jsstring option"

definition ok :: "nat \<Rightarrow> bool" where
  "ok code \<longleftrightarrow> 200 \<le> code \<and> code \<le> 299"

section \<open>services/elevenlabsService.ts\<close>

definition generateSingleAudio ::
  "platform \<Rightarrow> jsstring \<Rightarrow> jsstring \<Rightarrow> jsstring \<Rightarrow> (thrown + 8 word list) \<times> ext_call list" where
  "generateSingleAudio P text voiceId apiKey =
     (case fetch_tts P text voiceId apiKey of
        TtsRejects e \<Rightarrow> Inl e
      | TtsResponse code errorText blob \<Rightarrow>
          if \<not> ok code then Inl (ErrorObj (ElevenLabsApiError code errorText))
          else Inr blob,
      [TextToSpeech text voiceId apiKey])"

text \<open>\<open>request.script.map((line) => line.text)\<close>\<close>

fun line_texts :: "json list \<Rightarrow> thrown + json option list" where
  "line_texts [] = Inr []"
| "line_texts (l # ls) =
     (case get_prop l (js ''text'') of
        Inl e \<Rightarrow> Inl e
      | Inr t \<Rightarrow> (case line_texts ls of Inl e \<Rightarrow> Inl e | Inr ts \<Rightarrow> Inr (t # ts)))"

text \<open>
  \<open>.filter((text) => text.trim().length > 0)\<close>: calling \<open>trim\<close> on anything but a
  string throws a TypeError.
\<close>

fun nonblank_texts :: "json option list \<Rightarrow> thrown + jsstring list" where
  "nonblank_texts [] = Inr []"
| "nonblank_texts (Some (JStr s) # ts) =
     (case nonblank_texts ts of
        Inl e \<Rightarrow> Inl e
      | Inr r \<Rightarrow> Inr (if length (trim s) > 0 then s # r else r))"
| "nonblank_texts (t # ts) = Inl (ErrorObj EngineMessage)"

definition default_voice :: jsstring where
  "default_voice = js ''21m00Tcm4TlvDq8ikWAM''"

text \<open>\<open>process.env.ELEVENLABS_HOST_VOICE_ID || '21m00Tcm4TlvDq8ikWAM'\<close>\<close>

definition configured_voice :: "config \<Rightarrow> jsstring" where
  "configured_voice cfg =
     (case ELEVENLABS_HOST_VOICE_ID cfg of
        None \<Rightarrow> default_voice
      | Some v \<Rightarrow> (if v = [] then default_voice else v))"

text \<open>\<open>generateAudioFromScript\<close> from the point where the key is known to be set.\<close>

definition synthesize ::
  "platform \<Rightarrow> config \<Rightarrow> jsstring \<Rightarrow> json list \<Rightarrow> (thrown + 8 word list) \<times> ext_call list" where
  "synthesize P cfg apiKey script =
     (case line_texts script of
        Inl e \<Rightarrow> (Inl e, [])
      | Inr ts \<Rightarrow>
          (case nonblank_texts ts of
             Inl e \<Rightarrow> (Inl e, [])
           | Inr kept \<Rightarrow>
               (if trim (join (js '' '') kept) = []
                then (Inl (ErrorObj (Text (js ''Script is empty''))), [])
                else generateSingleAudio P (join (js '' '') kept) (configured_voice cfg) apiKey)))"

definition generateAudioFromScript ::
  "platform \<Rightarrow> config \<Rightarrow> json list \<Rightarrow> (thrown + 8 word list) \<times> ext_call list" where
  "generateAudioFromScript P cfg script =
     (if \<not> truthy_str (ELEVENLABS_API_KEY cfg)
      then (Inl (ErrorObj (Text (js ''ELEVENLABS_API_KEY not configured''))), [])
      else synthesize P cfg (case ELEVENLABS_API_KEY cfg of Some k \<Rightarrow> k | None \<Rightarrow> []) script)"

section \<open>routes/generate-audio.ts\<close>

definition generate_audio_post ::
  "platform \<Rightarrow> config \<Rightarrow> (jsstring \<times> json) list \<Rightarrow> response \<times> ext_call list" where
  "generate_audio_post P cfg body =
     (let script = map_of body (js ''script'')
      in case script of
           Some (JArr lines) \<Rightarrow>
             (case generateAudioFromScript P cfg lines of
                (Inr audioBuffer, calls) \<Rightarrow>
                  (\<lparr>status = 200,
                    headers = [(''Content-Type'', ''audio/mpeg''),
                               (''Content-Disposition'', ''inline; filename=\"podcast.mp3\"''),
                               (''Cache-Control'', ''no-cache'')],
                    payload = Audio audioBuffer\<rparr>, calls)
              | (Inl (ErrorObj m), calls) \<Rightarrow> (json_response 500 (JsonError m), calls)
              | (Inl NonError, calls) \<Rightarrow> (error_response 500 ''Failed to generate audio'', calls))
         | _ \<Rightarrow> (error_response 400 ''Script array is required'', []))"

section \<open>services/pythonService.ts\<close>

text \<open>
  The \<open>catch\<close> of \<open>generatePodcastScript\<close>: an \<open>Error\<close> is thrown again as it is,
  anything else is wrapped into a new \<open>Error\<close>.
\<close>

fun rethrow :: "thrown \<Rightarrow> thrown" where
  "rethrow (ErrorObj m) = ErrorObj m"
| "rethrow NonError = ErrorObj FailedToGenerateScript"

definition unknown_error :: json where
  "unknown_error = JObj [(js ''error'', JStr (js ''Unknown error''))]"

definition generatePodcastScript ::
  "platform \<Rightarrow> GenerateScriptRequest \<Rightarrow> (thrown + json list) \<times> ext_call list" where
  "generatePodcastScript P request =
     (case fetch_generate P request of
        FetchRejects e \<Rightarrow> Inl (rethrow e)
      | FetchResponse code parsed \<Rightarrow>
          if \<not> ok code then
            (case get_prop (case parsed of None \<Rightarrow> unknown_error | Some errorData \<Rightarrow> errorData)
                    (js ''error'') of
               Inl e \<Rightarrow> Inl (rethrow e)
             | Inr None \<Rightarrow> Inl (ErrorObj (HttpError code))
             | Inr (Some v) \<Rightarrow>
                 Inl (ErrorObj (if truthy (Some v) then string_of v else HttpError code)))
          else
            (case parsed of
               None \<Rightarrow> Inl (ErrorObj EngineMessage)
             | Some (JArr script) \<Rightarrow> Inr script
             | Some other \<Rightarrow> Inl (ErrorObj (Text (js ''Invalid script format: expected array'')))),
      [Generate request])"

section \<open>The relational store\<close>

text \<open>
  The table \<open>scripts\<close> is a list of rows. A call that the store does not carry out
  (\<open>store_fault\<close>) leaves the table as it is. An insert takes its id from
  \<open>gen_random_uuid\<close> and fails on the primary key when the id is taken.
\<close>

definition pg_insert ::
  "platform \<Rightarrow> nat \<Rightarrow> script_row list \<Rightarrow> jsstring \<Rightarrow> jsstring \<Rightarrow> rat \<Rightarrow> jsstring \<Rightarrow> json list
     \<Rightarrow> (pg_fault + jsstring) \<times> script_row list" where
  "pg_insert P now db u t d s script =
     (case store_fault P (Insert u t d s script) of
        Some f \<Rightarrow> (Inl f, db)
      | None \<Rightarrow>
          if gen_random_uuid P db \<in> set (map row_id db)
          then (Inl (PgError (js ''23505'')), db)
          else (Inr (gen_random_uuid P db),
                db @ [\<lparr>row_id = gen_random_uuid P db, user_id = u, row_topic = t,
                        duration_minutes = d, row_style = s, script_data = script,
                        created_at = now, updated_at = now\<rparr>]))"

definition pg_select ::
  "platform \<Rightarrow> store_call \<Rightarrow> script_row list \<Rightarrow> (script_row \<Rightarrow> bool) \<Rightarrow> pg_fault + script_row list" where
  "pg_select P call db cond =
     (case store_fault P call of Some f \<Rightarrow> Inl f | None \<Rightarrow> Inr (filter cond db))"

text \<open>\<open>.single()\<close>: exactly one row, or the error \<open>PGRST116\<close>.\<close>

fun single :: "pg_fault + script_row list \<Rightarrow> pg_fault + script_row" where
  "single (Inl f) = Inl f"
| "single (Inr [r]) = Inr r"
| "single (Inr rs) = Inl (PgError (js ''PGRST116''))"

text \<open>\<open>.order('created_at', { ascending: false })\<close>\<close>

definition order_created_at_desc :: "script_row list \<Rightarrow> script_row list" where
  "order_created_at_desc rows = rev (sort_key created_at rows)"

definition summary :: "script_row \<Rightarrow> script_summary" where
  "summary r = \<lparr>sum_id = row_id r, sum_topic = row_topic r,
                sum_duration_minutes = duration_minutes r, sum_style = row_style r,
                sum_created_at = created_at r, sum_updated_at = updated_at r\<rparr>"

definition owned :: "jsstring \<Rightarrow> jsstring \<Rightarrow> script_row \<Rightarrow> bool" where
  "owned i u r \<longleftrightarrow> row_id r = i \<and> user_id r = u"

section \<open>routes/generate-research.ts\<close>

definition typeof_string :: "json option \<Rightarrow> bool" where
  "typeof_string v = (case v of Some (JStr s) \<Rightarrow> True | _ \<Rightarrow> False)"

definition typeof_number :: "json option \<Rightarrow> bool" where
  "typeof_number v = (case v of Some (JNum n) \<Rightarrow> True | _ \<Rightarrow> False)"

fun str_val :: "json option \<Rightarrow> jsstring" where
  "str_val (Some (JStr s)) = s"
| "str_val v = []"

fun num_val :: "json option \<Rightarrow> rat" where
  "num_val (Some (JNum n)) = n"
| "num_val v = 0"

definition validStyles :: "jsstring list" where
  "validStyles = [js ''conversational'', js ''documentary'', js ''investigative'',
                  js ''educational'', js ''storytelling'']"

definition style_error :: response where
  "style_error =
     json_response 400 (JsonError (Text (js ''Style must be one of: '' @ join (js '', '') validStyles)))"

text \<open>The part of the handler after validation: the upstream call, then the best-effort save.\<close>

definition generate_and_save ::
  "platform \<Rightarrow> config \<Rightarrow> script_row list \<Rightarrow> nat \<Rightarrow> auth_user option \<Rightarrow> GenerateScriptRequest
     \<Rightarrow> response \<times> script_row list \<times> ext_call list" where
  "generate_and_save P cfg db now user request =
     (case generatePodcastScript P request of
        (Inl (ErrorObj m), calls) \<Rightarrow> (json_response 500 (JsonError m), db, calls)
      | (Inl NonError, calls) \<Rightarrow>
          (error_response 500 ''Failed to generate podcast script'', db, calls)
      | (Inr script, calls) \<Rightarrow>
          (case user of
             None \<Rightarrow> (json_response 200 (JsonScript script None), db, calls)
           | Some u \<Rightarrow>
               if \<not> research_supabase cfg
               then (json_response 200 (JsonScript script None), db, calls)
               else
                 (case pg_insert P now db (uid u) (topic request) (durationMinutes request)
                         (style request) script of
                    (Inr saved, db') \<Rightarrow>
                      (json_response 200 (JsonScript script (Some saved)), db',
                       calls @ [Store (Insert (uid u) (topic request) (durationMinutes request)
                                         (style request) script)])
                  | (Inl f, db') \<Rightarrow>
                      (json_response 200 (JsonScript script None), db',
                       calls @ [Store (Insert (uid u) (topic request) (durationMinutes request)
                                         (style request) script)]))))"

definition generate_research_post ::
  "platform \<Rightarrow> config \<Rightarrow> script_row list \<Rightarrow> nat \<Rightarrow> auth_user option \<Rightarrow> (jsstring \<times> json) list
     \<Rightarrow> response \<times> script_row list \<times> ext_call list" where
  "generate_research_post P cfg db now user body =
     (let topic_v = map_of body (js ''topic'');
          duration_v = map_of body (js ''durationMinutes'');
          style_v = map_of body (js ''style'')
      in if \<not> truthy topic_v \<or> \<not> typeof_string topic_v \<or> length (trim (str_val topic_v)) = 0
         then (error_response 400 ''Topic is required and must be a non-empty string'', db, [])
         else if \<not> truthy duration_v \<or> \<not> typeof_number duration_v
                 \<or> num_val duration_v < 5 \<or> num_val duration_v > 120
         then (error_response 400 ''Duration must be a number between 5 and 120 minutes'', db, [])
         else if \<not> truthy style_v \<or> \<not> typeof_string style_v
         then (error_response 400 ''Style is required'', db, [])
         else if toLowerCase P (str_val style_v) \<notin> set validStyles
         then (style_error, db, [])
         else generate_and_save P cfg db now user
                \<lparr>topic = trim (str_val topic_v), durationMinutes = num_val duration_v,
                 style = toLowerCase P (str_val style_v)\<rparr>)"

section \<open>routes/scripts.ts\<close>

definition scripts_get_all ::
  "platform \<Rightarrow> config \<Rightarrow> script_row list \<Rightarrow> auth_user option \<Rightarrow> response \<times> ext_call list" where
  "scripts_get_all P cfg db user =
     (case user of
        None \<Rightarrow> (error_response 500 ''Database not configured'', [])
      | Some u \<Rightarrow>
          if \<not> scripts_supabase cfg then (error_response 500 ''Database not configured'', [])
          else
            (case pg_select P (SelectSummaries (uid u)) db (\<lambda>r. user_id r = uid u) of
               Inl (PgThrows e) \<Rightarrow> error_response 500 ''Internal server error''
             | Inl (PgError c) \<Rightarrow> error_response 500 ''Failed to fetch scripts''
             | Inl PgNoData \<Rightarrow> json_response 200 (JsonScripts [])
             | Inr rows \<Rightarrow>
                 json_response 200 (JsonScripts (map summary (order_created_at_desc rows))),
             [Store (SelectSummaries (uid u))]))"

definition scripts_get_one ::
  "platform \<Rightarrow> config \<Rightarrow> script_row list \<Rightarrow> auth_user option \<Rightarrow> jsstring
     \<Rightarrow> response \<times> ext_call list" where
  "scripts_get_one P cfg db user i =
     (case user of
        None \<Rightarrow> (error_response 500 ''Database not configured'', [])
      | Some u \<Rightarrow>
          if \<not> scripts_supabase cfg then (error_response 500 ''Database not configured'', [])
          else
            (case single (pg_select P (SelectScript i (uid u)) db (owned i (uid u))) of
               Inl (PgThrows e) \<Rightarrow> error_response 500 ''Internal server error''
             | Inl (PgError c) \<Rightarrow>
                 if c = js ''PGRST116'' then error_response 404 ''Script not found''
                 else error_response 500 ''Failed to fetch script''
             | Inl PgNoData \<Rightarrow> error_response 404 ''Script not found''
             | Inr row \<Rightarrow> json_response 200 (JsonRecord row),
             [Store (SelectScript i (uid u))]))"

text \<open>
  The delete itself answers with neither data nor error when it is carried out, so
  \<open>PgNoData\<close> is its regular answer.
\<close>

definition pg_delete ::
  "platform \<Rightarrow> script_row list \<Rightarrow> jsstring \<Rightarrow> jsstring \<Rightarrow> response \<times> script_row list" where
  "pg_delete P db i u =
     (case store_fault P (DeleteScript i u) of
        Some (PgThrows e) \<Rightarrow> (error_response 500 ''Internal server error'', db)
      | Some (PgError c) \<Rightarrow> (error_response 500 ''Failed to delete script'', db)
      | _ \<Rightarrow> (json_response 200 (JsonMessage (js ''Script deleted successfully'')),
              filter (\<lambda>r. \<not> owned i u r) db))"

definition scripts_delete_one ::
  "platform \<Rightarrow> config \<Rightarrow> script_row list \<Rightarrow> auth_user option \<Rightarrow> jsstring
     \<Rightarrow> response \<times> script_row list \<times> ext_call list" where
  "scripts_delete_one P cfg db user i =
     (case user of
        None \<Rightarrow> (error_response 500 ''Database not configured'', db, [])
      | Some u \<Rightarrow>
          if \<not> scripts_supabase cfg then (error_response 500 ''Database not configured'', db, [])
          else
            (case single (pg_select P (SelectId i (uid u)) db (owned i (uid u))) of
               Inl (PgThrows e) \<Rightarrow>
                 (error_response 500 ''Internal server error'', db, [Store (SelectId i (uid u))])
             | Inl f \<Rightarrow>
                 (error_response 404 ''Script not found'', db, [Store (SelectId i (uid u))])
             | Inr existingScript \<Rightarrow>
                 (fst (pg_delete P db i (uid u)), snd (pg_delete P db i (uid u)),
                  [Store (SelectId i (uid u)), Store (DeleteScript i (uid u))])))"

section \<open>The rate limiter\<close>

record limiter_options =
  windowMs :: nat
  max_opt :: nat
  message_opt :: jsstring

definition generateLimiter :: limiter_options where
  "generateLimiter =
     \<lparr>windowMs = 15 * 60 * 1000, max_opt = 10,
      message_opt = js ''Too many script generation requests, please try again later.''\<rparr>"

definition audioLimiter :: limiter_options where
  "audioLimiter =
     \<lparr>windowMs = 15 * 60 * 1000, max_opt = 5,
      message_opt = js ''Too many audio generation requests, please try again later.''\<rparr>"

text \<open>
  Modelled from the spec: \<open>rateLimit\<close> of the package express-rate-limit, which the
  routes import and whose code is not in the repository. The spec describes it as a
  per-client sliding window of request timestamps, keyed by client address and updated
  by increment-and-check: the request is recorded, the timestamps that left the window
  are dropped, and the request passes when the window holds at most \<open>max\<close> of them.
  Times are in milliseconds.
\<close>

definition rateLimit ::
  "limiter_options \<Rightarrow> (jsstring \<Rightarrow> nat list) \<Rightarrow> nat \<Rightarrow> jsstring \<Rightarrow> bool \<times> (jsstring \<Rightarrow> nat list)" where
  "rateLimit opts hits now key =
     (length (filter (\<lambda>t. now < t + windowMs opts) (hits key) @ [now]) \<le> max_opt opts,
      hits(key := filter (\<lambda>t. now < t + windowMs opts) (hits key) @ [now]))"

definition too_many_requests :: "limiter_options \<Rightarrow> response" where
  "too_many_requests opts = \<lparr>status = 429, headers = [], payload = PlainText (message_opt opts)\<rparr>"

text \<open>
  The limiter over a sequence of arrivals, each a time and a client key: the decision
  for each arrival, and the arrivals that passed.
\<close>

fun limiter_run ::
  "limiter_options \<Rightarrow> (jsstring \<Rightarrow> nat list) \<Rightarrow> (nat \<times> jsstring) list \<Rightarrow> bool list" where
  "limiter_run opts hits [] = []"
| "limiter_run opts hits ((now, key) # rest) =
     fst (rateLimit opts hits now key) # limiter_run opts (snd (rateLimit opts hits now key)) rest"

definition passed ::
  "limiter_options \<Rightarrow> (jsstring \<Rightarrow> nat list) \<Rightarrow> (nat \<times> jsstring) list \<Rightarrow> (nat \<times> jsstring) list" where
  "passed opts hits arrivals = map fst (filter snd (zip arrivals (limiter_run opts hits arrivals)))"

text \<open>The arrivals of client \<open>key\<close> in the window that starts at \<open>a\<close>.\<close>

definition in_window :: "limiter_options \<Rightarrow> jsstring \<Rightarrow> nat \<Rightarrow> nat \<times> jsstring \<Rightarrow> bool" where
  "in_window opts key a e \<longleftrightarrow> snd e = key \<and> a \<le> fst e \<and> fst e < a + windowMs opts"

section \<open>The server\<close>

datatype http_method = GET | POST | PUT | PATCH | DELETE | HEAD | OPTIONS

text \<open>
  An error handed to \<open>next(err)\<close>, with the properties the error handler reads.
\<close>

record http_error =
  statusCode :: "nat option"
  err_message :: jsstring
  stack :: "jsstring option"

text \<open>
  An incoming request: its method, which path of \<open>server.ts\<close> it matches and the
  segments of its path after that prefix, the Authorization header, the client address,
  and its body as \<open>express.json\<close> finds it. A body that the parser refuses
  (unparsable, too large) is \<open>body_error\<close>, the error the parser raises; otherwise
  \<open>body_error\<close> is \<open>None\<close> and \<open>req_body\<close> holds the properties of the parsed body.
\<close>

datatype mount = Health | ApiGenerateResearch | ApiGenerateAudio | ApiScripts | NoRoute

record request =
  req_method :: http_method
  req_mount :: mount
  subpath :: "jsstring list"
  authorization :: "jsstring option"
  ip :: jsstring
  req_body :: "(jsstring \<times> json) list"
  body_error :: "http_error option"

text \<open>
  What outlives a request: the lazily built client of the auth middleware, the hits of
  the two limiters, and the table of the store.
\<close>

record server_state =
  auth_supabase :: bool
  generateLimiter_hits :: "jsstring \<Rightarrow> nat list"
  audioLimiter_hits :: "jsstring \<Rightarrow> nat list"
  scripts_table :: "script_row list"

definition no_route :: response where
  "no_route = \<lparr>status = 404, headers = [], payload = NoBody\<rparr>"

subsection \<open>middleware/auth.ts\<close>

definition getSupabaseClient :: "config \<Rightarrow> server_state \<Rightarrow> bool \<times> server_state" where
  "getSupabaseClient cfg st =
     (if auth_supabase st then (True, st)
      else if truthy_str (SUPABASE_URL cfg) \<and> truthy_str (SUPABASE_SERVICE_KEY cfg)
      then (True, st\<lparr>auth_supabase := True\<rparr>)
      else (False, st))"

text \<open>The middleware from \<open>client.auth.getUser(token)\<close> on.\<close>

definition verify_token ::
  "platform \<Rightarrow> server_state \<Rightarrow> jsstring \<Rightarrow> (response + auth_user) \<times> server_state \<times> ext_call list" where
  "verify_token P st token =
     (case getUser P token of
        AuthThrows \<Rightarrow> (Inl (error_response 500 ''Authentication error''), st, [GetUser token])
      | AuthError \<Rightarrow> (Inl (error_response 401 ''Invalid or expired token''), st, [GetUser token])
      | AuthNoUser \<Rightarrow> (Inl (error_response 401 ''Invalid or expired token''), st, [GetUser token])
      | AuthUser user \<Rightarrow> (Inr \<lparr>uid = uid user, email = email user\<rparr>, st, [GetUser token]))"

text \<open>\<open>Inl\<close> is the response the middleware sends itself; \<open>Inr\<close> is \<open>req.user\<close> at \<open>next()\<close>.\<close>

definition authMiddleware ::
  "platform \<Rightarrow> config \<Rightarrow> server_state \<Rightarrow> jsstring option
     \<Rightarrow> (response + auth_user) \<times> server_state \<times> ext_call list" where
  "authMiddleware P cfg st authHeader =
     (if \<not> truthy_str authHeader \<or> \<not> startsWith (case authHeader of Some h \<Rightarrow> h | None \<Rightarrow> []) (js ''Bearer '')
      then (Inl (error_response 401 ''Missing or invalid authorization header''), st, [])
      else if \<not> fst (getSupabaseClient cfg st)
      then (Inl (error_response 500 ''Authentication service not configured''),
            snd (getSupabaseClient cfg st), [])
      else verify_token P (snd (getSupabaseClient cfg st))
             (substring (case authHeader of Some h \<Rightarrow> h | None \<Rightarrow> []) 7))"

subsection \<open>The routers\<close>

definition generateResearchRouter ::
  "platform \<Rightarrow> config \<Rightarrow> server_state \<Rightarrow> nat \<Rightarrow> request \<Rightarrow> auth_user option
     \<Rightarrow> response \<times> server_state \<times> ext_call list" where
  "generateResearchRouter P cfg st now req user =
     (if req_method req = POST \<and> subpath req = [] then
        (case rateLimit generateLimiter (generateLimiter_hits st) now (ip req) of
           (False, hits) \<Rightarrow>
             (too_many_requests generateLimiter, st\<lparr>generateLimiter_hits := hits\<rparr>, [])
         | (True, hits) \<Rightarrow>
             (case generate_research_post P cfg (scripts_table st) now user (req_body req) of
                (res, db, calls) \<Rightarrow>
                  (res, st\<lparr>generateLimiter_hits := hits, scripts_table := db\<rparr>, calls)))
      else (no_route, st, []))"

definition generateAudioRouter ::
  "platform \<Rightarrow> config \<Rightarrow> server_state \<Rightarrow> nat \<Rightarrow> request \<Rightarrow> auth_user option
     \<Rightarrow> response \<times> server_state \<times> ext_call list" where
  "generateAudioRouter P cfg st now req user =
     (if req_method req = POST \<and> subpath req = [] then
        (case rateLimit audioLimiter (audioLimiter_hits st) now (ip req) of
           (False, hits) \<Rightarrow>
             (too_many_requests audioLimiter, st\<lparr>audioLimiter_hits := hits\<rparr>, [])
         | (True, hits) \<Rightarrow>
             (case generate_audio_post P cfg (req_body req) of
                (res, calls) \<Rightarrow> (res, st\<lparr>audioLimiter_hits := hits\<rparr>, calls)))
      else (no_route, st, []))"

text \<open>Express serves a HEAD request by the GET route where no HEAD route is declared.\<close>

definition route_method :: "http_method \<Rightarrow> http_method" where
  "route_method m = (if m = HEAD then GET else m)"

definition scriptsRouter ::
  "platform \<Rightarrow> config \<Rightarrow> server_state \<Rightarrow> request \<Rightarrow> auth_user option
     \<Rightarrow> response \<times> server_state \<times> ext_call list" where
  "scriptsRouter P cfg st req user =
     (case (route_method (req_method req), subpath req) of
        (GET, []) \<Rightarrow>
          (case scripts_get_all P cfg (scripts_table st) user of (res, calls) \<Rightarrow> (res, st, calls))
      | (GET, [i]) \<Rightarrow>
          (case scripts_get_one P cfg (scripts_table st) user i of
             (res, calls) \<Rightarrow> (res, st, calls))
      | (DELETE, [i]) \<Rightarrow>
          (case scripts_delete_one P cfg (scripts_table st) user i of
             (res, db, calls) \<Rightarrow> (res, st\<lparr>scripts_table := db\<rparr>, calls))
      | _ \<Rightarrow> (no_route, st, []))"

subsection \<open>server.ts\<close>

text \<open>\<open>app.use(path, authMiddleware, router)\<close>: the router runs only after \<open>next()\<close>.\<close>

definition behind_auth ::
  "platform \<Rightarrow> config \<Rightarrow> server_state \<Rightarrow> request
     \<Rightarrow> (server_state \<Rightarrow> auth_user option \<Rightarrow> response \<times> server_state \<times> ext_call list)
     \<Rightarrow> response \<times> server_state \<times> ext_call list" where
  "behind_auth P cfg st req router =
     (case authMiddleware P cfg st (authorization req) of
        (Inl res, st', calls) \<Rightarrow> (res, st', calls)
      | (Inr user, st', calls) \<Rightarrow>
          (case router st' (Some user) of
             (res, st'', calls') \<Rightarrow> (res, st'', calls @ calls')))"

text \<open>The routes of \<open>server.ts\<close>, which a request reaches after the two middlewares.\<close>

definition routes ::
  "platform \<Rightarrow> config \<Rightarrow> server_state \<Rightarrow> nat \<Rightarrow> request
     \<Rightarrow> response \<times> server_state \<times> ext_call list" where
  "routes P cfg st now req =
     (case req_mount req of
        Health \<Rightarrow>
          (if route_method (req_method req) = GET \<and> subpath req = []
           then (json_response 200 (JsonHealth now), st, [])
           else (no_route, st, []))
      | ApiGenerateResearch \<Rightarrow>
          behind_auth P cfg st req (\<lambda>st' user. generateResearchRouter P cfg st' now req user)
      | ApiGenerateAudio \<Rightarrow>
          behind_auth P cfg st req (\<lambda>st' user. generateAudioRouter P cfg st' now req user)
      | ApiScripts \<Rightarrow>
          behind_auth P cfg st req (\<lambda>st' user. scriptsRouter P cfg st' req user)
      | NoRoute \<Rightarrow> (no_route, st, []))"

text \<open>
  \<open>cors({ origin: process.env.FRONTEND_URL || 'http://localhost:3000', credentials: true })\<close>.
  The package cors is not part of the repository. Of its middleware the model keeps
  the control flow under these options: an OPTIONS request is a preflight, which the
  middleware answers itself with status 204 and an empty body, and any other request
  goes on to the next middleware. The Access-Control headers it puts on the answers
  are left out, as are the headers that Express adds on its own.
\<close>

record cors_options =
  origin :: jsstring
  credentials :: bool

definition corsOptions :: "config \<Rightarrow> cors_options" where
  "corsOptions cfg =
     \<lparr>origin = (if truthy_str (FRONTEND_URL cfg)
                then (case FRONTEND_URL cfg of Some u \<Rightarrow> u | None \<Rightarrow> [])
                else js ''http://localhost:3000''),
      credentials = True\<rparr>"

definition cors :: "cors_options \<Rightarrow> request \<Rightarrow> response option" where
  "cors opts req =
     (if origin opts \<noteq> [] \<and> req_method req = OPTIONS
      then Some \<lparr>status = 204, headers = [(''Content-Length'', ''0'')], payload = NoBody\<rparr>
      else None)"

text \<open>
  \<open>express.json()\<close>: the parser of the package express either leaves the parsed body
  in \<open>req.body\<close> and goes on, or hands its error to \<open>next(err)\<close>, which skips the
  routes and ends in the error handler.
\<close>

definition express_json :: "request \<Rightarrow> http_error + (jsstring \<times> json) list" where
  "express_json req = (case body_error req of Some err \<Rightarrow> Inl err | None \<Rightarrow> Inr (req_body req))"

subsection \<open>middleware/errorHandler.ts\<close>

definition errorHandler :: "config \<Rightarrow> http_error \<Rightarrow> response" where
  "errorHandler cfg err =
     \<lparr>status = (case statusCode err of None \<Rightarrow> 500 | Some c \<Rightarrow> (if c = 0 then 500 else c)),
      headers = [],
      payload =
        (if NODE_ENV cfg = Some (js ''development'')
         then JsonErrorStack
                (Text (if err_message err = [] then js ''Internal server error'' else err_message err))
                (stack err)
         else JsonError
                (Text (if err_message err = [] then js ''Internal server error'' else err_message err)))\<rparr>"

subsection \<open>The application\<close>

text \<open>
  The middleware chain of \<open>server.ts\<close> in the order of its \<open>app.use\<close> calls: cors,
  the JSON body parser, the routes, and the error handler for what was handed to
  \<open>next(err)\<close>.
\<close>

definition app ::
  "platform \<Rightarrow> config \<Rightarrow> server_state \<Rightarrow> nat \<Rightarrow> request
     \<Rightarrow> response \<times> server_state \<times> ext_call list" where
  "app P cfg st now req =
     (case cors (corsOptions cfg) req of
        Some res \<Rightarrow> (res, st, [])
      | None \<Rightarrow>
          (case express_json req of
             Inl err \<Rightarrow> (errorHandler cfg err, st, [])
           | Inr parsed \<Rightarrow> routes P cfg st now (req\<lparr>req_body := parsed\<rparr>)))"

text \<open>One router over a sequence of requests that reached it, each with its arrival time.\<close>

fun route_run ::
  "(server_state \<Rightarrow> nat \<Rightarrow> request \<Rightarrow> response \<times> server_state \<times> ext_call list)
     \<Rightarrow> server_state \<Rightarrow> (nat \<times> request) list \<Rightarrow> (response \<times> ext_call list) list" where
  "route_run router st [] = []"
| "route_run router st ((now, req) # rest) =
     (fst (router st now req), snd (snd (router st now req)))
       # route_run router (fst (snd (router st now req))) rest"

text \<open>
  Among requests and their answers: a request of the client at address \<open>key\<close> that
  arrived in the 15 minutes from \<open>a\<close> on and was not answered 429.
\<close>

definition served_in_window ::
  "jsstring \<Rightarrow> nat \<Rightarrow> (nat \<times> request) \<times> (response \<times> ext_call list) \<Rightarrow> bool" where
  "served_in_window key a x \<longleftrightarrow>
     ip (snd (fst x)) = key \<and> a \<le> fst (fst x) \<and> fst (fst x) < a + 15 * 60 * 1000
     \<and> status (fst (snd x)) \<noteq> 429"

definition initial_state :: server_state where
  "initial_state =
     \<lparr>auth_supabase = False, generateLimiter_hits = (\<lambda>key. []),
      audioLimiter_hits = (\<lambda>key. []), scripts_table = []\<rparr>"

section \<open>Conditions on requests and answers\<close>

text \<open>
  A body that none of the four checks of the generate-research handler refuses, with
  its fields: the topic \<open>t\<close>, the duration \<open>d\<close> and the style \<open>s\<close> as sent.
\<close>

definition accepted ::
  "platform \<Rightarrow> (jsstring \<times> json) list \<Rightarrow> jsstring \<Rightarrow> rat \<Rightarrow> jsstring \<Rightarrow> bool" where
  "accepted P body t d s \<longleftrightarrow>
     map_of body (js ''topic'') = Some (JStr t) \<and> trim t \<noteq> []
     \<and> map_of body (js ''durationMinutes'') = Some (JNum d) \<and> 5 \<le> d \<and> d \<le> 120
     \<and> map_of body (js ''style'') = Some (JStr s) \<and> s \<noteq> []
     \<and> toLowerCase P s \<in> set validStyles"

text \<open>The request the handler sends upstream for such a body.\<close>

definition forwarded :: "platform \<Rightarrow> jsstring \<Rightarrow> rat \<Rightarrow> jsstring \<Rightarrow> GenerateScriptRequest" where
  "forwarded P t d s = \<lparr>topic = trim t, durationMinutes = d, style = toLowerCase P s\<rparr>"

text \<open>The script-generation service answers a request with a success status and an array.\<close>

definition upstream_ok :: "platform \<Rightarrow> GenerateScriptRequest \<Rightarrow> json list \<Rightarrow> bool" where
  "upstream_ok P request script =
     (case fetch_generate P request of
        FetchResponse code (Some (JArr xs)) \<Rightarrow> ok code \<and> xs = script
      | _ \<Rightarrow> False)"

section \<open>A concrete deployment\<close>

text \<open>
  Concrete inputs on which the theorems below are evaluated: a lower-casing of the
  letters A to Z, one known token, services that answer, and a configured environment.
\<close>

definition ascii_lower :: "jsstring \<Rightarrow> jsstring" where
  "ascii_lower s = map (\<lambda>c. if 0x41 \<le> c \<and> c \<le> 0x5A then c + 0x20 else c) s"

definition alice :: auth_user where
  "alice = \<lparr>uid = js ''alice'', email = None\<rparr>"

definition host_line :: "string \<Rightarrow> json" where
  "host_line t = JObj [(js ''speaker'', JStr (js ''Host'')), (js ''text'', JStr (js t))]"

definition guest_line :: "string \<Rightarrow> json" where
  "guest_line t =
     JObj [(js ''speaker'', JStr (js ''Guest'')), (js ''text'', JStr (js t)),
           (js ''audioEffect'', JStr (js ''laugh''))]"

definition sample_script :: "json list" where
  "sample_script = [host_line ''Hi'', guest_line '' '', guest_line ''Yo'']"

definition sample_platform :: platform where
  "sample_platform =
     \<lparr>toLowerCase = ascii_lower,
      getUser = (\<lambda>token. if token = js ''t1'' then AuthUser alice else AuthError),
      fetch_generate = (\<lambda>request. FetchResponse 200 (Some (JArr sample_script))),
      fetch_tts = (\<lambda>text voiceId apiKey. TtsResponse 200 [] [0x49, 0x44, 0x33]),
      store_fault = (\<lambda>call. None),
      gen_random_uuid = (\<lambda>db. js ''s'' @ replicate (length db) 0x31)\<rparr>"

definition sample_config :: config where
  "sample_config =
     \<lparr>SUPABASE_URL = Some (js ''u''), SUPABASE_SERVICE_KEY = Some (js ''k''),
      research_supabase = True, scripts_supabase = True,
      ELEVENLABS_API_KEY = Some (js ''xi''), ELEVENLABS_HOST_VOICE_ID = None,
      FRONTEND_URL = None, NODE_ENV = Some (js ''production'')\<rparr>"

definition sample_body :: "(jsstring \<times> json) list" where
  "sample_body =
     [(js ''topic'', JStr (js '' Tea '')), (js ''durationMinutes'', JNum 5),
      (js ''style'', JStr (js ''Documentary''))]"

definition sample_row :: "string \<Rightarrow> string \<Rightarrow> nat \<Rightarrow> script_row" where
  "sample_row i u t =
     \<lparr>row_id = js i, user_id = js u, row_topic = js ''Tea'', duration_minutes = 5,
      row_style = js ''documentary'', script_data = sample_script,
      created_at = t, updated_at = t\<rparr>"

text \<open>A body with one more property in front, which is the one a lookup finds.\<close>

definition with_field :: "string \<Rightarrow> json \<Rightarrow> (jsstring \<times> json) list \<Rightarrow> (jsstring \<times> json) list" where
  "with_field k v body = (js k, v) # body"

text \<open>The same deployment with a store that answers no call, and one without store credentials.\<close>

definition store_down_platform :: platform where
  "store_down_platform = sample_platform\<lparr>store_fault := (\<lambda>call. Some (PgError (js ''08006'')))\<rparr>"

definition no_store_config :: config where
  "no_store_config = sample_config\<lparr>research_supabase := False, scripts_supabase := False\<rparr>"

text \<open>
  The environment with another voice configured, and the error of the body parser on a
  body that is not JSON.
\<close>

definition voice_config :: config where
  "voice_config = sample_config\<lparr>ELEVENLABS_HOST_VOICE_ID := Some (js ''pNInz6obpgDQGcFmaJgB'')\<rparr>"

definition parse_failed :: http_error where
  "parse_failed =
     \<lparr>statusCode = Some 400, err_message = js ''Unexpected token < in JSON at position 0'',
      stack = None\<rparr>"

text \<open>Requests to the three mounts, and a table with scripts of two users.\<close>

definition sample_request :: "http_method \<Rightarrow> mount \<Rightarrow> jsstring list \<Rightarrow> jsstring option \<Rightarrow> request" where
  "sample_request m mt sub auth =
     \<lparr>req_method = m, req_mount = mt, subpath = sub, authorization = auth,
      ip = js ''10.0.0.1'', req_body = sample_body, body_error = None\<rparr>"

definition sample_table :: "script_row list" where
  "sample_table = [sample_row ''s1'' ''alice'' 10, sample_row ''s2'' ''bob'' 20,
                   sample_row ''s3'' ''alice'' 30]"

text \<open>Authenticated requests of one client, one per second, and a state with ten recorded hits.\<close>

definition burst :: "mount \<Rightarrow> nat \<Rightarrow> (nat \<times> request) list" where
  "burst mt n = map (\<lambda>k. (k * 1000, sample_request POST mt [] (Some (js ''Bearer t1'')))) [0..<n]"

definition busy_state :: server_state where
  "busy_state =
     initial_state\<lparr>generateLimiter_hits := (\<lambda>key. map (\<lambda>k. k * 1000) [0..<10]),
                   audioLimiter_hits := (\<lambda>key. map (\<lambda>k. k * 1000) [0..<5])\<rparr>"

section \<open>Properties\<close>

subsection \<open>Strings\<close>

lemma trim_empty_iff: "trim s = [] \<longleftrightarrow> (\<forall>c\<in>set s. isWhiteSpace c)"
proof -
  have "trim s = [] \<longleftrightarrow> (\<forall>c\<in>set (dropWhile isWhiteSpace s). isWhiteSpace c)"
    by (simp add: trim_def dropWhile_eq_Nil_conv)
  also have "\<dots> \<longleftrightarrow> dropWhile isWhiteSpace s = []"
  proof
    assume a: "\<forall>c\<in>set (dropWhile isWhiteSpace s). isWhiteSpace c"
    show "dropWhile isWhiteSpace s = []"
    proof (rule ccontr)
      assume "dropWhile isWhiteSpace s \<noteq> []"
      then have "\<not> isWhiteSpace (hd (dropWhile isWhiteSpace s))"
        by (rule hd_dropWhile)
      moreover have "hd (dropWhile isWhiteSpace s) \<in> set (dropWhile isWhiteSpace s)"
        using \<open>dropWhile isWhiteSpace s \<noteq> []\<close> by simp
      ultimately show False using a by blast
    qed
  next
    assume "dropWhile isWhiteSpace s = []"
    then show "\<forall>c\<in>set (dropWhile isWhiteSpace s). isWhiteSpace c"
      by (simp del: dropWhile_eq_Nil_conv)
  qed
  also have "\<dots> \<longleftrightarrow> (\<forall>c\<in>set s. isWhiteSpace c)"
    by (simp add: dropWhile_eq_Nil_conv)
  finally show ?thesis .
qed

lemma set_join_hd: "set x \<subseteq> set (join sep (x # xs))"
  by (cases xs) auto

lemma join_nonblank:
  assumes "kept \<noteq> []" and "\<forall>s\<in>set kept. trim s \<noteq> []"
  shows "trim (join sep kept) \<noteq> []"
proof -
  obtain x xs where k: "kept = x # xs" using assms(1) by (cases kept) auto
  then have "trim x \<noteq> []" using assms(2) by simp
  then obtain c where "c \<in> set x" "\<not> isWhiteSpace c" by (auto simp: trim_empty_iff)
  then have "c \<in> set (join sep kept)" using set_join_hd[of x sep xs] k by auto
  then show ?thesis using \<open>\<not> isWhiteSpace c\<close> by (auto simp: trim_empty_iff)
qed

subsection \<open>Audio generation\<close>

lemma line_texts_map:
  "map (\<lambda>l. get_prop l (js ''text'')) ls = map (\<lambda>t. Inr (Some (JStr t))) texts
   \<Longrightarrow> line_texts ls = Inr (map (\<lambda>t. Some (JStr t)) texts)"
proof (induction ls arbitrary: texts)
  case Nil then show ?case by simp
next
  case (Cons l ls)
  then obtain t ts where "texts = t # ts" by (cases texts) auto
  with Cons show ?case by simp
qed

lemma nonblank_texts_map:
  "nonblank_texts (map (\<lambda>t. Some (JStr t)) texts) = Inr (filter (\<lambda>t. trim t \<noteq> []) texts)"
  by (induction texts) auto


lemma synthesize_kept:
  assumes "map (\<lambda>l. get_prop l (js ''text'')) ls = map (\<lambda>t. Inr (Some (JStr t))) texts"
  shows "synthesize P cfg apiKey ls =
           (if trim (join (js '' '') (filter (\<lambda>t. trim t \<noteq> []) texts)) = []
            then (Inl (ErrorObj (Text (js ''Script is empty''))), [])
            else generateSingleAudio P (join (js '' '') (filter (\<lambda>t. trim t \<noteq> []) texts))
                   (configured_voice cfg) apiKey)"
  by (simp add: synthesize_def line_texts_map[OF assms] nonblank_texts_map)

lemma synthesize_texts:
  assumes "map (\<lambda>l. get_prop l (js ''text'')) ls = map (\<lambda>t. Inr (Some (JStr t))) texts"
  shows "synthesize P cfg apiKey ls =
           (if \<forall>t\<in>set texts. trim t = []
            then (Inl (ErrorObj (Text (js ''Script is empty''))), [])
            else generateSingleAudio P (join (js '' '') (filter (\<lambda>t. trim t \<noteq> []) texts))
                   (configured_voice cfg) apiKey)"
proof (cases "\<forall>t\<in>set texts. trim t = []")
  case True
  then have "filter (\<lambda>t. trim t \<noteq> []) texts = []" by (simp add: filter_empty_conv)
  then have e: "trim (join (js '' '') (filter (\<lambda>t. trim t \<noteq> []) texts)) = []"
    by (simp add: trim_def)
  show ?thesis
    unfolding synthesize_kept[OF assms] if_P[OF e] if_P[OF True] by (rule refl)
next
  case False
  then have "filter (\<lambda>t. trim t \<noteq> []) texts \<noteq> []" by (simp add: filter_empty_conv)
  then have ne: "trim (join (js '' '') (filter (\<lambda>t. trim t \<noteq> []) texts)) \<noteq> []"
    by (rule join_nonblank) simp
  show ?thesis
    unfolding synthesize_kept[OF assms] if_not_P[OF ne] if_not_P[OF False] by (rule refl)
qed

lemma generate_audio_post_calls:
  "map_of body (js ''script'') = Some (JArr lines)
   \<Longrightarrow> snd (generate_audio_post P cfg body) = snd (generateAudioFromScript P cfg lines)"
  by (cases "generateAudioFromScript P cfg lines")
     (auto simp: generate_audio_post_def split: sum.splits thrown.splits)

lemma blank_lines_texts:
  assumes "\<forall>l\<in>set ls. \<exists>t. get_prop l (js ''text'') = Inr (Some (JStr t)) \<and> trim t = []"
  shows "\<exists>texts. map (\<lambda>l. get_prop l (js ''text'')) ls = map (\<lambda>t. Inr (Some (JStr t))) texts
               \<and> (\<forall>t\<in>set texts. trim t = [])"
  using assms
proof (induction ls)
  case Nil then show ?case by simp
next
  case (Cons l ls)
  then obtain texts where t: "map (\<lambda>l. get_prop l (js ''text'')) ls = map (\<lambda>t. Inr (Some (JStr t))) texts"
      "\<forall>t\<in>set texts. trim t = []" by auto
  from Cons.prems obtain t where "get_prop l (js ''text'') = Inr (Some (JStr t))" "trim t = []" by auto
  then have "map (\<lambda>l. get_prop l (js ''text'')) (l # ls) = map (\<lambda>t. Inr (Some (JStr t))) (t # texts)
     \<and> (\<forall>t\<in>set (t # texts). trim t = [])" using t by simp
  then show ?case by blast
qed

text \<open>
  C1, as the code has it. A script that is an empty array, or whose lines all have a
  whitespace-only text, passes the check of the route (an empty array is truthy and is
  an array) and is refused inside \<open>generateAudioFromScript\<close>, whose \<open>Error\<close> the
  route answers with status 500: the message is \<open>Script is empty\<close>, or
  \<open>ELEVENLABS_API_KEY not configured\<close> when the key is unset. The speech-synthesis
  service is not called.
\<close>

theorem blank_script_is_server_error:
  assumes "map_of body (js ''script'') = Some (JArr lines)"
      and "\<forall>l\<in>set lines. \<exists>t. get_prop l (js ''text'') = Inr (Some (JStr t)) \<and> trim t = []"
  shows "fst (generate_audio_post P cfg body) =
           error_response 500 (if truthy_str (ELEVENLABS_API_KEY cfg) then ''Script is empty''
                               else ''ELEVENLABS_API_KEY not configured'')
         \<and> status (fst (generate_audio_post P cfg body)) = 500
         \<and> snd (generate_audio_post P cfg body) = []"
proof -
  obtain texts where t: "map (\<lambda>l. get_prop l (js ''text'')) lines = map (\<lambda>t. Inr (Some (JStr t))) texts"
      "\<forall>t\<in>set texts. trim t = []" using blank_lines_texts[OF assms(2)] by blast
  show ?thesis
    using t(2) by (simp add: generate_audio_post_def assms(1) generateAudioFromScript_def
        synthesize_texts[OF t(1)] error_response_def json_response_def)
qed

theorem blank_script_is_server_error_witness:
  "map_of [(js ''script'', JArr [guest_line '' ''])] (js ''script'') = Some (JArr [guest_line '' ''])
   \<and> get_prop (guest_line '' '') (js ''text'') = Inr (Some (JStr (js '' ''))) \<and> trim (js '' '') = []
   \<and> generate_audio_post sample_platform sample_config [(js ''script'', JArr [guest_line '' ''])]
       = (error_response 500 ''Script is empty'', [])"
proof -
  have h1: "map_of [(js ''script'', JArr [guest_line '' ''])] (js ''script'') = Some (JArr [guest_line '' ''])"
    by simp
  have h2: "\<forall>l\<in>set [guest_line '' '']. \<exists>t. get_prop l (js ''text'') = Inr (Some (JStr t)) \<and> trim t = []"
    by (simp add: guest_line_def js_def trim_def isWhiteSpace_def)
  have k: "truthy_str (ELEVENLABS_API_KEY sample_config)"
    by (simp add: sample_config_def js_def)
  have h3: "get_prop (guest_line '' '') (js ''text'') = Inr (Some (JStr (js '' '')))"
    by (simp add: guest_line_def js_def)
  have h4: "trim (js '' '') = []"
    by (simp add: js_def trim_def isWhiteSpace_def)
  show ?thesis
    using h1 h3 h4 k blank_script_is_server_error[OF h1 h2, of sample_platform sample_config]
    by (simp add: prod_eq_iff)
qed

text \<open>
  C1 as stated asks for status 400. With the key configured, the empty script and the
  script of one whitespace-only line both get status 500.
\<close>

theorem empty_script_counterexample:
  "status (fst (generate_audio_post sample_platform sample_config [(js ''script'', JArr [])])) = 500
   \<and> status (fst (generate_audio_post sample_platform sample_config
                    [(js ''script'', JArr [host_line ''  ''])])) = 500"
  by (simp add: generate_audio_post_def generateAudioFromScript_def sample_config_def synthesize_def
      trim_def js_def error_response_def json_response_def host_line_def isWhiteSpace_def)

text \<open>
  C8. When the lines of the submitted script have the texts \<open>texts\<close>, in order, the only
  external call of the route is one speech-synthesis call whose text is the
  whitespace-only texts removed and the rest joined by single spaces; when every text
  is whitespace-only there is no call. Nothing but the \<open>text\<close> property of a line
  enters, so speaker and audioEffect have no effect. The voice of the call is the one
  configured in \<open>ELEVENLABS_HOST_VOICE_ID\<close>, or \<open>21m00Tcm4TlvDq8ikWAM\<close> when the
  variable is unset or empty, however many speakers the script has.
\<close>

theorem audio_text_is_joined_lines:
  assumes "map_of body (js ''script'') = Some (JArr lines)"
      and "map (\<lambda>l. get_prop l (js ''text'')) lines = map (\<lambda>t. Inr (Some (JStr t))) texts"
      and "ELEVENLABS_API_KEY cfg = Some apiKey" and "apiKey \<noteq> []"
  shows "snd (generate_audio_post P cfg body) =
           (if \<forall>t\<in>set texts. trim t = [] then []
            else [TextToSpeech (join (js '' '') (filter (\<lambda>t. trim t \<noteq> []) texts))
                    (case ELEVENLABS_HOST_VOICE_ID cfg of
                       None \<Rightarrow> js ''21m00Tcm4TlvDq8ikWAM''
                     | Some v \<Rightarrow> (if v = [] then js ''21m00Tcm4TlvDq8ikWAM'' else v))
                    apiKey])"
proof -
  have "snd (generateAudioFromScript P cfg lines) =
           (if \<forall>t\<in>set texts. trim t = [] then []
            else [TextToSpeech (join (js '' '') (filter (\<lambda>t. trim t \<noteq> []) texts))
                    (configured_voice cfg) apiKey])"
    by (simp add: generateAudioFromScript_def assms(3,4) synthesize_texts[OF assms(2)]
        generateSingleAudio_def)
  then show ?thesis
    by (simp add: generate_audio_post_calls[OF assms(1)] configured_voice_def default_voice_def
        split: option.splits)
qed

theorem audio_text_is_joined_lines_witness:
  "map_of [(js ''script'', JArr sample_script)] (js ''script'') = Some (JArr sample_script)
   \<and> map (\<lambda>l. get_prop l (js ''text'')) sample_script
       = map (\<lambda>t. Inr (Some (JStr t))) [js ''Hi'', js '' '', js ''Yo'']
   \<and> ELEVENLABS_HOST_VOICE_ID voice_config = Some (js ''pNInz6obpgDQGcFmaJgB'')
   \<and> snd (generate_audio_post sample_platform voice_config [(js ''script'', JArr sample_script)])
       = [TextToSpeech (js ''Hi Yo'') (js ''pNInz6obpgDQGcFmaJgB'') (js ''xi'')]
   \<and> ELEVENLABS_HOST_VOICE_ID sample_config = None
   \<and> snd (generate_audio_post sample_platform sample_config [(js ''script'', JArr sample_script)])
       = [TextToSpeech (js ''Hi Yo'') (js ''21m00Tcm4TlvDq8ikWAM'') (js ''xi'')]"
proof -
  have h1: "map_of [(js ''script'', JArr sample_script)] (js ''script'') = Some (JArr sample_script)"
    by simp
  have h2: "map (\<lambda>l. get_prop l (js ''text'')) sample_script
       = map (\<lambda>t. Inr (Some (JStr t))) [js ''Hi'', js '' '', js ''Yo'']"
    by (simp add: sample_script_def host_line_def guest_line_def js_def)
  have h3: "ELEVENLABS_API_KEY sample_config = Some (js ''xi'')"
           "ELEVENLABS_API_KEY voice_config = Some (js ''xi'')"
    by (simp_all add: sample_config_def voice_config_def)
  have h4: "js ''xi'' \<noteq> []" by (simp add: js_def)
  have v: "ELEVENLABS_HOST_VOICE_ID voice_config = Some (js ''pNInz6obpgDQGcFmaJgB'')"
          "ELEVENLABS_HOST_VOICE_ID sample_config = None"
          "js ''pNInz6obpgDQGcFmaJgB'' \<noteq> []"
    by (simp_all add: sample_config_def voice_config_def js_def)
  have t: "trim (js ''Hi'') \<noteq> []" "trim (js '' '') = []" "trim (js ''Yo'') \<noteq> []"
    by (simp_all add: js_def trim_def isWhiteSpace_def)
  have j: "js ''Hi'' @ js '' '' @ js ''Yo'' = js ''Hi Yo''" by (simp add: js_def)
  show ?thesis
    using h1 h2 audio_text_is_joined_lines[OF h1 h2 h3(1) h4, of sample_platform]
          audio_text_is_joined_lines[OF h1 h2 h3(2) h4, of sample_platform]
    by (simp add: v t j)
qed

subsection \<open>Script generation\<close>

lemma generatePodcastScript_ok:
  "upstream_ok P request script \<Longrightarrow> generatePodcastScript P request = (Inr script, [Generate request])"
  by (auto simp: upstream_ok_def generatePodcastScript_def
           split: fetch_outcome.splits option.splits json.splits)

lemma generatePodcastScript_calls: "snd (generatePodcastScript P request) = [Generate request]"
  by (simp add: generatePodcastScript_def)

lemma trim_Nil [simp]: "trim [] = []"
  by (simp add: trim_def)

lemma forwarded_sel [simp]:
  "topic (forwarded P t d s) = trim t"
  "durationMinutes (forwarded P t d s) = d"
  "style (forwarded P t d s) = toLowerCase P s"
  by (simp_all add: forwarded_def)

lemma accepted_runs:
  "accepted P body t d s \<Longrightarrow>
     generate_research_post P cfg db now user body
       = generate_and_save P cfg db now user (forwarded P t d s)"
  by (cases "t = []")
     (simp_all add: accepted_def generate_research_post_def forwarded_def typeof_string_def
      typeof_number_def Let_def)

lemma generate_and_save_calls:
  "\<exists>rest. snd (snd (generate_and_save P cfg db now user request)) = Generate request # rest
          \<and> (\<forall>c\<in>set rest. \<exists>sc. c = Store sc)"
  using generatePodcastScript_calls[of P request]
  by (cases "generatePodcastScript P request")
     (auto simp: generate_and_save_def split: sum.splits thrown.splits option.splits prod.splits)

lemma generate_and_save_status:
  "status (fst (generate_and_save P cfg db now user request)) \<in> {200, 500}"
  by (cases "generatePodcastScript P request")
     (auto simp: generate_and_save_def json_response_def error_response_def
           split: sum.splits thrown.splits option.splits prod.splits)

text \<open>
  C2. For a body that passes validation and an upstream call that succeeds, with the
  store client configured and an authenticated user: when the insert fails (the store
  answers with an error, with no row, or the client throws), the response is status 200
  with the generated script and \<open>savedId\<close> null.
\<close>

theorem persistence_failure_keeps_success:
  assumes "accepted P body t d s"
      and "upstream_ok P (forwarded P t d s) script"
      and "research_supabase cfg"
      and "fst (pg_insert P now db (uid u) (trim t) d (toLowerCase P s) script) = Inl f"
  shows "fst (generate_research_post P cfg db now (Some u) body)
           = json_response 200 (JsonScript script None)
         \<and> status (fst (generate_research_post P cfg db now (Some u) body)) = 200"
proof -
  obtain db' where "pg_insert P now db (uid u) (trim t) d (toLowerCase P s) script = (Inl f, db')"
    using assms(4) by (cases "pg_insert P now db (uid u) (trim t) d (toLowerCase P s) script") auto
  then have "fst (generate_and_save P cfg db now (Some u) (forwarded P t d s))
          = json_response 200 (JsonScript script None)"
    by (simp add: generate_and_save_def generatePodcastScript_ok[OF assms(2)] assms(3))
  then show ?thesis
    by (simp add: accepted_runs[OF assms(1)] json_response_def)
qed


lemma sample_accepted:
  "toLowerCase P = ascii_lower \<Longrightarrow> accepted P sample_body (js '' Tea '') 5 (js ''Documentary'')"
  by (simp add: accepted_def sample_body_def js_def trim_def isWhiteSpace_def
      validStyles_def ascii_lower_def)

lemma sample_forwarded:
  "toLowerCase P = ascii_lower \<Longrightarrow>
     forwarded P (js '' Tea '') 5 (js ''Documentary'')
       = \<lparr>topic = js ''Tea'', durationMinutes = 5, style = js ''documentary''\<rparr>"
  by (simp add: forwarded_def js_def trim_def isWhiteSpace_def ascii_lower_def)

lemma sample_upstream_ok:
  "fetch_generate P = (\<lambda>request. FetchResponse 200 (Some (JArr sample_script)))
   \<Longrightarrow> upstream_ok P request sample_script"
  by (simp add: upstream_ok_def ok_def)

theorem persistence_failure_keeps_success_witness:
  "accepted store_down_platform sample_body (js '' Tea '') 5 (js ''Documentary'')
   \<and> upstream_ok store_down_platform
        (forwarded store_down_platform (js '' Tea '') 5 (js ''Documentary'')) sample_script
   \<and> research_supabase sample_config
   \<and> fst (pg_insert store_down_platform 7 [] (uid alice) (trim (js '' Tea '')) 5
            (toLowerCase store_down_platform (js ''Documentary'')) sample_script)
        = Inl (PgError (js ''08006''))
   \<and> fst (generate_research_post store_down_platform sample_config [] 7 (Some alice) sample_body)
        = json_response 200 (JsonScript sample_script None)"
proof -
  have h1: "accepted store_down_platform sample_body (js '' Tea '') 5 (js ''Documentary'')"
    by (rule sample_accepted) (simp add: store_down_platform_def sample_platform_def)
  have h2: "upstream_ok store_down_platform
        (forwarded store_down_platform (js '' Tea '') 5 (js ''Documentary'')) sample_script"
    by (rule sample_upstream_ok) (simp add: store_down_platform_def sample_platform_def)
  have h3: "research_supabase sample_config" by (simp add: sample_config_def)
  have h4: "fst (pg_insert store_down_platform 7 [] (uid alice) (trim (js '' Tea '')) 5
            (toLowerCase store_down_platform (js ''Documentary'')) sample_script)
        = Inl (PgError (js ''08006''))"
    by (simp add: pg_insert_def store_down_platform_def)
  show ?thesis
    using h1 h2 h3 h4 persistence_failure_keeps_success[OF h1 h2 h3 h4] by simp
qed

lemma error_response_status [simp]: "status (error_response code m) = code"
  by (simp add: error_response_def json_response_def)

lemma json_response_sel [simp]:
  "status (json_response code p) = code" "payload (json_response code p) = p"
  by (simp_all add: json_response_def)

lemma duration_refused:
  assumes "\<not> typeof_number (map_of body (js ''durationMinutes''))
           \<or> num_val (map_of body (js ''durationMinutes'')) < 5
           \<or> 120 < num_val (map_of body (js ''durationMinutes''))"
  shows "status (fst (generate_research_post P cfg db now user body)) = 400
         \<and> fst (snd (generate_research_post P cfg db now user body)) = db
         \<and> snd (snd (generate_research_post P cfg db now user body)) = []"
  using assms by (auto simp: generate_research_post_def Let_def)

lemma duration_in_range_passes:
  assumes "map_of body (js ''durationMinutes'') = Some (JNum d)" "5 \<le> d" "d \<le> 120"
  shows "fst (generate_research_post P cfg db now user body)
           \<noteq> error_response 400 ''Duration must be a number between 5 and 120 minutes''"
proof -
  have m: "js ''Topic is required and must be a non-empty string''
             \<noteq> js ''Duration must be a number between 5 and 120 minutes''"
          "js ''Style is required'' \<noteq> js ''Duration must be a number between 5 and 120 minutes''"
          "js ''Style must be one of: '' @ join (js '', '') validStyles
             \<noteq> js ''Duration must be a number between 5 and 120 minutes''"
    by (simp_all add: js_def)
  have g: "status (fst (generate_and_save P cfg db now user r)) \<noteq> 400" for r
    using generate_and_save_status[of P cfg db now user r] by auto
  have "d \<noteq> 0" using assms(2) by auto
  then show ?thesis
    using assms m g
    by (auto simp: generate_research_post_def Let_def typeof_number_def error_response_def
        json_response_def style_error_def dest!: arg_cong[where f = status])
qed

lemma accepted_forwards:
  assumes "accepted P body t d s"
  shows "\<exists>rest. snd (snd (generate_research_post P cfg db now user body))
                  = Generate \<lparr>topic = trim t, durationMinutes = d, style = toLowerCase P s\<rparr> # rest
               \<and> (\<forall>c\<in>set rest. \<exists>sc. c = Store sc)"
  using generate_and_save_calls[of P cfg db now user "forwarded P t d s"]
  by (simp add: accepted_runs[OF assms] forwarded_def)

text \<open>
  C4. A \<open>durationMinutes\<close> that is not a number, or is below 5 or above 120, gets status
  400 with no external call and no change of the store. A number in the closed interval,
  5 and 120 included, is not refused by the duration check, and in an accepted request it
  is the duration sent upstream.
\<close>

theorem duration_is_checked:
  "(\<not> typeof_number (map_of body (js ''durationMinutes''))
      \<or> num_val (map_of body (js ''durationMinutes'')) < 5
      \<or> 120 < num_val (map_of body (js ''durationMinutes''))
    \<longrightarrow> status (fst (generate_research_post P cfg db now user body)) = 400
        \<and> fst (snd (generate_research_post P cfg db now user body)) = db
        \<and> snd (snd (generate_research_post P cfg db now user body)) = [])
   \<and> (map_of body (js ''durationMinutes'') = Some (JNum d) \<and> 5 \<le> d \<and> d \<le> 120
    \<longrightarrow> fst (generate_research_post P cfg db now user body)
          \<noteq> error_response 400 ''Duration must be a number between 5 and 120 minutes'')
   \<and> (accepted P body t d s
    \<longrightarrow> (\<exists>rest. snd (snd (generate_research_post P cfg db now user body))
                 = Generate \<lparr>topic = trim t, durationMinutes = d, style = toLowerCase P s\<rparr> # rest))"
  using duration_refused[of body P cfg db now user]
        duration_in_range_passes[of body d P cfg db now user]
        accepted_forwards[of P body t d s cfg db now user]
  by blast

lemma with_duration [simp]:
  "map_of (with_field ''durationMinutes'' v body) (js ''durationMinutes'') = Some v"
  by (simp add: with_field_def)

lemma with_duration_accepted:
  "toLowerCase P = ascii_lower \<Longrightarrow> 5 \<le> d \<Longrightarrow> d \<le> 120 \<Longrightarrow>
     accepted P (with_field ''durationMinutes'' (JNum d) sample_body) (js '' Tea '') d (js ''Documentary'')"
  by (simp add: accepted_def with_field_def sample_body_def js_def trim_def isWhiteSpace_def
      validStyles_def ascii_lower_def)

theorem duration_is_checked_witness:
  "status (fst (generate_research_post sample_platform sample_config [] 7 (Some alice)
                  (with_field ''durationMinutes'' (JNum 4) sample_body))) = 400
   \<and> snd (snd (generate_research_post sample_platform sample_config [] 7 (Some alice)
                  (with_field ''durationMinutes'' (JNum 4) sample_body))) = []
   \<and> status (fst (generate_research_post sample_platform sample_config [] 7 (Some alice)
                  (with_field ''durationMinutes'' (JStr (js ''10'')) sample_body))) = 400
   \<and> status (fst (generate_research_post sample_platform sample_config [] 7 (Some alice)
                  (with_field ''durationMinutes'' (JNum (241 / 2)) sample_body))) = 400
   \<and> fst (generate_research_post sample_platform sample_config [] 7 (Some alice) sample_body)
        \<noteq> error_response 400 ''Duration must be a number between 5 and 120 minutes''
   \<and> (\<exists>rest. snd (snd (generate_research_post sample_platform sample_config [] 7 (Some alice)
                 (with_field ''durationMinutes'' (JNum 120) sample_body)))
        = Generate \<lparr>topic = js ''Tea'', durationMinutes = 120, style = js ''documentary''\<rparr> # rest)"
proof -
  let ?R = "\<lambda>b. generate_research_post sample_platform sample_config [] 7 (Some alice) b"
  have lc: "toLowerCase sample_platform = ascii_lower" by (simp add: sample_platform_def)
  have a: "status (fst (?R (with_field ''durationMinutes'' (JNum 4) sample_body))) = 400
         \<and> snd (snd (?R (with_field ''durationMinutes'' (JNum 4) sample_body))) = []"
    using duration_is_checked[of "with_field ''durationMinutes'' (JNum 4) sample_body"
            sample_platform sample_config "[]" 7 "Some alice" 0 "[]" "[]"]
    by simp
  have b: "status (fst (?R (with_field ''durationMinutes'' (JStr (js ''10'')) sample_body))) = 400"
    using duration_is_checked[of "with_field ''durationMinutes'' (JStr (js ''10'')) sample_body"
            sample_platform sample_config "[]" 7 "Some alice" 0 "[]" "[]"]
    by (simp add: typeof_number_def)
  have c: "status (fst (?R (with_field ''durationMinutes'' (JNum (241 / 2)) sample_body))) = 400"
    using duration_is_checked[of "with_field ''durationMinutes'' (JNum (241 / 2)) sample_body"
            sample_platform sample_config "[]" 7 "Some alice" 0 "[]" "[]"]
    by simp
  have d: "fst (?R sample_body)
        \<noteq> error_response 400 ''Duration must be a number between 5 and 120 minutes''"
    using duration_is_checked[of sample_body sample_platform sample_config "[]" 7 "Some alice" 5 "[]" "[]"]
    by (simp add: sample_body_def js_def)
  have e: "\<exists>rest. snd (snd (?R (with_field ''durationMinutes'' (JNum 120) sample_body)))
        = Generate \<lparr>topic = js ''Tea'', durationMinutes = 120, style = js ''documentary''\<rparr> # rest"
    using duration_is_checked[of "with_field ''durationMinutes'' (JNum 120) sample_body"
            sample_platform sample_config "[]" 7 "Some alice" 120 "js '' Tea ''" "js ''Documentary''"]
          with_duration_accepted[OF lc, of 120] sample_forwarded[OF lc]
    by (simp add: forwarded_def)
  show ?thesis using a b c d e by blast
qed

lemma style_refused:
  assumes "map_of body (js ''style'') = Some (JStr s)" "toLowerCase P s \<notin> set validStyles"
  shows "status (fst (generate_research_post P cfg db now user body)) = 400
         \<and> fst (snd (generate_research_post P cfg db now user body)) = db
         \<and> snd (snd (generate_research_post P cfg db now user body)) = []"
  using assms by (auto simp: generate_research_post_def Let_def style_error_def)

lemma style_error_lists:
  "payload style_error =
     JsonError (Text (js ''Style must be one of: conversational, documentary, investigative, educational, storytelling''))"
  by (simp add: style_error_def validStyles_def js_def)

lemma style_names_allowed_set:
  assumes "map_of body (js ''topic'') = Some (JStr t)" "trim t \<noteq> []"
      and "map_of body (js ''durationMinutes'') = Some (JNum d)" "5 \<le> d" "d \<le> 120"
      and "map_of body (js ''style'') = Some (JStr s)" "s \<noteq> []"
      and "toLowerCase P s \<notin> set validStyles"
  shows "fst (generate_research_post P cfg db now user body) = style_error"
proof -
  have "t \<noteq> []" using assms(2) by auto
  moreover have "d \<noteq> 0" using assms(4) by auto
  ultimately show ?thesis
    using assms
    by (simp add: generate_research_post_def Let_def typeof_string_def typeof_number_def)
qed

text \<open>
  C5, as the code has it. A style string whose lower-casing is not one of the five
  styles gets status 400 with no external call. The message lists the allowed set when
  the topic and the duration checks have passed and the style is not the empty string.
  For an accepted request the first external call is the upstream request with the
  trimmed topic and the lower-cased style, and only store calls follow it.
\<close>

theorem style_is_checked:
  "(map_of body (js ''style'') = Some (JStr s) \<and> toLowerCase P s \<notin> set validStyles
    \<longrightarrow> status (fst (generate_research_post P cfg db now user body)) = 400
        \<and> fst (snd (generate_research_post P cfg db now user body)) = db
        \<and> snd (snd (generate_research_post P cfg db now user body)) = [])
   \<and> (map_of body (js ''topic'') = Some (JStr t) \<and> trim t \<noteq> []
      \<and> map_of body (js ''durationMinutes'') = Some (JNum d) \<and> 5 \<le> d \<and> d \<le> 120
      \<and> map_of body (js ''style'') = Some (JStr s) \<and> s \<noteq> []
      \<and> toLowerCase P s \<notin> set validStyles
    \<longrightarrow> payload (fst (generate_research_post P cfg db now user body)) =
          JsonError (Text (js ''Style must be one of: conversational, documentary, investigative, educational, storytelling'')))
   \<and> (accepted P body t d s
    \<longrightarrow> (\<exists>rest. snd (snd (generate_research_post P cfg db now user body))
                 = Generate \<lparr>topic = trim t, durationMinutes = d, style = toLowerCase P s\<rparr> # rest
               \<and> (\<forall>c\<in>set rest. \<exists>sc. c = Store sc)))"
  using style_refused[of body s P cfg db now user]
        style_names_allowed_set[of body t d s P cfg db now user]
        accepted_forwards[of P body t d s cfg db now user]
        style_error_lists
  by auto

theorem style_is_checked_witness:
  "status (fst (generate_research_post sample_platform sample_config [] 7 (Some alice)
                  (with_field ''style'' (JStr (js ''Jazz'')) sample_body))) = 400
   \<and> snd (snd (generate_research_post sample_platform sample_config [] 7 (Some alice)
                  (with_field ''style'' (JStr (js ''Jazz'')) sample_body))) = []
   \<and> payload (fst (generate_research_post sample_platform sample_config [] 7 (Some alice)
                  (with_field ''style'' (JStr (js ''Jazz'')) sample_body))) =
          JsonError (Text (js ''Style must be one of: conversational, documentary, investigative, educational, storytelling''))
   \<and> (\<exists>rest. snd (snd (generate_research_post sample_platform sample_config [] 7 (Some alice)
                 sample_body))
        = Generate \<lparr>topic = js ''Tea'', durationMinutes = 5, style = js ''documentary''\<rparr> # rest)"
proof -
  let ?R = "\<lambda>b. generate_research_post sample_platform sample_config [] 7 (Some alice) b"
  let ?jazz = "with_field ''style'' (JStr (js ''Jazz'')) sample_body"
  have lc: "toLowerCase sample_platform = ascii_lower" by (simp add: sample_platform_def)
  have f: "map_of ?jazz (js ''topic'') = Some (JStr (js '' Tea ''))"
          "map_of ?jazz (js ''durationMinutes'') = Some (JNum 5)"
          "map_of ?jazz (js ''style'') = Some (JStr (js ''Jazz''))"
    by (simp_all add: with_field_def sample_body_def js_def)
  have n: "toLowerCase sample_platform (js ''Jazz'') \<notin> set validStyles"
          "trim (js '' Tea '') \<noteq> []" "js ''Jazz'' \<noteq> []"
    by (simp_all add: lc ascii_lower_def js_def validStyles_def trim_def isWhiteSpace_def)
  have a: "status (fst (?R ?jazz)) = 400 \<and> snd (snd (?R ?jazz)) = []
        \<and> payload (fst (?R ?jazz)) =
          JsonError (Text (js ''Style must be one of: conversational, documentary, investigative, educational, storytelling''))"
    using style_is_checked[of ?jazz "js ''Jazz''" sample_platform sample_config "[]" 7 "Some alice"
            "js '' Tea ''" 5] f n
    by simp
  have b: "\<exists>rest. snd (snd (?R sample_body))
        = Generate \<lparr>topic = js ''Tea'', durationMinutes = 5, style = js ''documentary''\<rparr> # rest"
    using style_is_checked[of sample_body "js ''Documentary''" sample_platform sample_config "[]" 7
            "Some alice" "js '' Tea ''" 5]
          sample_accepted[OF lc] sample_forwarded[OF lc]
    by (auto simp: forwarded_def)
  show ?thesis using a b by blast
qed

text \<open>
  C5 as stated has the message list the allowed set for every style outside the set.
  The empty string is outside the set and is answered by \<open>Style is required\<close>, with the
  topic and the duration valid.
\<close>

theorem empty_style_counterexample:
  "map_of (with_field ''style'' (JStr []) sample_body) (js ''style'') = Some (JStr [])
   \<and> toLowerCase sample_platform [] \<notin> set validStyles
   \<and> payload (fst (generate_research_post sample_platform sample_config [] 7 (Some alice)
                    (with_field ''style'' (JStr []) sample_body)))
        = JsonError (Text (js ''Style is required''))"
  by (simp add: generate_research_post_def with_field_def sample_body_def js_def Let_def
      typeof_string_def typeof_number_def trim_def isWhiteSpace_def sample_platform_def
      ascii_lower_def validStyles_def error_response_def json_response_def)

text \<open>
  C10. With both module-level store clients null, an accepted request whose upstream
  call succeeds gets status 200 with the script and \<open>savedId\<close> null; the store is not
  called and does not change. The three scripts handlers answer 500,
  \<open>Database not configured\<close>.
\<close>

theorem missing_store_skips_saving:
  assumes "\<not> research_supabase cfg" and "\<not> scripts_supabase cfg"
      and "accepted P body t d s"
      and "upstream_ok P \<lparr>topic = trim t, durationMinutes = d, style = toLowerCase P s\<rparr> script"
  shows "generate_research_post P cfg db now user body
           = (json_response 200 (JsonScript script None), db,
              [Generate \<lparr>topic = trim t, durationMinutes = d, style = toLowerCase P s\<rparr>])
         \<and> status (fst (generate_research_post P cfg db now user body)) = 200
         \<and> fst (scripts_get_all P cfg db user) = error_response 500 ''Database not configured''
         \<and> fst (scripts_get_one P cfg db user i) = error_response 500 ''Database not configured''
         \<and> fst (scripts_delete_one P cfg db user i) = error_response 500 ''Database not configured''
         \<and> status (error_response 500 ''Database not configured'') = 500"
proof -
  have u: "upstream_ok P (forwarded P t d s) script" using assms(4) by (simp add: forwarded_def)
  have "generate_and_save P cfg db now user (forwarded P t d s)
          = (json_response 200 (JsonScript script None), db, [Generate (forwarded P t d s)])"
    using assms(1)
    by (simp add: generate_and_save_def generatePodcastScript_ok[OF u] split: option.splits)
  then have g: "generate_research_post P cfg db now user body
           = (json_response 200 (JsonScript script None), db,
              [Generate \<lparr>topic = trim t, durationMinutes = d, style = toLowerCase P s\<rparr>])"
    by (simp add: accepted_runs[OF assms(3)] forwarded_def)
  have "fst (scripts_get_all P cfg db user) = error_response 500 ''Database not configured''"
       "fst (scripts_get_one P cfg db user i) = error_response 500 ''Database not configured''"
       "fst (scripts_delete_one P cfg db user i) = error_response 500 ''Database not configured''"
    using assms(2)
    by (simp_all add: scripts_get_all_def scripts_get_one_def scripts_delete_one_def
        split: option.splits)
  then show ?thesis using g by simp
qed

theorem missing_store_skips_saving_witness:
  "accepted sample_platform sample_body (js '' Tea '') 5 (js ''Documentary'')
   \<and> generate_research_post sample_platform no_store_config [] 7 (Some alice) sample_body
       = (json_response 200 (JsonScript sample_script None), [],
          [Generate \<lparr>topic = js ''Tea'', durationMinutes = 5, style = js ''documentary''\<rparr>])
   \<and> status (fst (scripts_get_all sample_platform no_store_config [] (Some alice))) = 500
   \<and> status (fst (scripts_get_one sample_platform no_store_config [] (Some alice) (js ''s''))) = 500
   \<and> status (fst (scripts_delete_one sample_platform no_store_config [] (Some alice) (js ''s''))) = 500"
proof -
  have lc: "toLowerCase sample_platform = ascii_lower" by (simp add: sample_platform_def)
  have h1: "\<not> research_supabase no_store_config" "\<not> scripts_supabase no_store_config"
    by (simp_all add: no_store_config_def)
  have h3: "accepted sample_platform sample_body (js '' Tea '') 5 (js ''Documentary'')"
    by (rule sample_accepted[OF lc])
  have h4: "upstream_ok sample_platform
              \<lparr>topic = trim (js '' Tea ''), durationMinutes = 5,
                 style = toLowerCase sample_platform (js ''Documentary'')\<rparr> sample_script"
    by (rule sample_upstream_ok) (simp add: sample_platform_def)
  show ?thesis
    using h3 missing_store_skips_saving[OF h1 h3 h4, of "[]" 7 "Some alice" "js ''s''"]
          sample_forwarded[OF lc]
    by (simp add: forwarded_def)
qed

subsection \<open>The auth gate\<close>

lemma cors_origin_set: "origin (corsOptions cfg) \<noteq> []"
  by (cases "FRONTEND_URL cfg") (simp_all add: corsOptions_def js_def)

lemma app_options:
  "req_method req = OPTIONS \<Longrightarrow>
     app P cfg st now req
       = (\<lparr>status = 204, headers = [(''Content-Length'', ''0'')], payload = NoBody\<rparr>, st, [])"
  by (simp add: app_def cors_def cors_origin_set)

lemma app_body_error:
  "req_method req \<noteq> OPTIONS \<Longrightarrow> body_error req = Some err \<Longrightarrow>
     app P cfg st now req = (errorHandler cfg err, st, [])"
  by (simp add: app_def cors_def express_json_def)

lemma app_routes:
  "req_method req \<noteq> OPTIONS \<Longrightarrow> body_error req = None \<Longrightarrow>
     app P cfg st now req = routes P cfg st now req"
  by (simp add: app_def cors_def express_json_def)

lemma errorHandler_status:
  "status (errorHandler cfg err)
     = (case statusCode err of None \<Rightarrow> 500 | Some c \<Rightarrow> (if c = 0 then 500 else c))"
  by (simp add: errorHandler_def)

lemma routes_without_bearer:
  assumes "req_mount req = ApiGenerateResearch \<or> req_mount req = ApiGenerateAudio
           \<or> req_mount req = ApiScripts"
      and "authorization req = None
           \<or> (\<exists>h. authorization req = Some h \<and> \<not> startsWith h (js ''Bearer ''))"
  shows "routes P cfg st now req
           = (error_response 401 ''Missing or invalid authorization header'', st, [])"
proof -
  have "authMiddleware P cfg st (authorization req)
          = (Inl (error_response 401 ''Missing or invalid authorization header''), st, [])"
    using assms(2) by (auto simp: authMiddleware_def)
  then have "behind_auth P cfg st req router
          = (error_response 401 ''Missing or invalid authorization header'', st, [])" for router
    by (simp add: behind_auth_def)
  then show ?thesis
    using assms(1) by (auto simp: routes_def)
qed

text \<open>
  C3, as the code has it. On each of the three mounts under \<open>/api\<close>, whatever the
  method and the rest of the path, a request whose Authorization header is absent, or
  does not start with \<open>Bearer \<close>, leaves the server state (both limiters' hits, the
  store, the cached auth client) as it was and causes no external call. It is answered
  401 by the auth middleware, unless one of the two middlewares ahead of the routes
  answers it first: an OPTIONS request is answered 204 by cors, and a request whose
  body the JSON parser refuses is answered by the error handler with the status of the
  parser's error (500 when it carries none).
\<close>

theorem missing_bearer_stops_before_the_limiter:
  assumes "req_mount req = ApiGenerateResearch \<or> req_mount req = ApiGenerateAudio
           \<or> req_mount req = ApiScripts"
      and "authorization req = None
           \<or> (\<exists>h. authorization req = Some h \<and> \<not> startsWith h (js ''Bearer ''))"
  shows "fst (snd (app P cfg st now req)) = st
       \<and> snd (snd (app P cfg st now req)) = []
       \<and> (req_method req \<noteq> OPTIONS \<and> body_error req = None
          \<longrightarrow> status (fst (app P cfg st now req)) = 401
            \<and> payload (fst (app P cfg st now req))
                = JsonError (Text (js ''Missing or invalid authorization header'')))
       \<and> (req_method req = OPTIONS
          \<longrightarrow> status (fst (app P cfg st now req)) = 204
            \<and> payload (fst (app P cfg st now req)) = NoBody)
       \<and> (req_method req \<noteq> OPTIONS \<and> body_error req = Some err
          \<longrightarrow> status (fst (app P cfg st now req))
                = (case statusCode err of None \<Rightarrow> 500 | Some c \<Rightarrow> (if c = 0 then 500 else c))
            \<and> fst (app P cfg st now req) = errorHandler cfg err)"
proof (cases "req_method req = OPTIONS")
  case True
  then show ?thesis by (simp add: app_options)
next
  case False
  show ?thesis
  proof (cases "body_error req")
    case None
    then show ?thesis
      using False by (simp add: app_routes routes_without_bearer[OF assms] error_response_def)
  next
    case (Some e)
    then show ?thesis
      using False by (simp add: app_body_error errorHandler_status)
  qed
qed

theorem missing_bearer_stops_before_the_limiter_witness:
  "status (fst (app sample_platform sample_config initial_state 7
       (sample_request POST ApiGenerateResearch [] None))) = 401
   \<and> payload (fst (app sample_platform sample_config initial_state 7
       (sample_request POST ApiGenerateResearch [] None)))
       = JsonError (Text (js ''Missing or invalid authorization header''))
   \<and> snd (app sample_platform sample_config initial_state 7
       (sample_request POST ApiGenerateResearch [] None)) = (initial_state, [])
   \<and> status (fst (app sample_platform sample_config initial_state 7
       (sample_request POST ApiGenerateAudio [] (Some (js ''bearer t1''))))) = 401
   \<and> status (fst (app sample_platform sample_config initial_state 7
       (sample_request OPTIONS ApiScripts [js ''s1''] None))) = 204
   \<and> fst (snd (app sample_platform sample_config initial_state 7
       (sample_request OPTIONS ApiScripts [js ''s1''] None))) = initial_state
   \<and> status (fst (app sample_platform sample_config initial_state 7
       ((sample_request DELETE ApiScripts [js ''s1''] (Some (js ''Basic dDE='')))
          \<lparr>body_error := Some parse_failed\<rparr>))) = 400
   \<and> snd (app sample_platform sample_config initial_state 7
       ((sample_request DELETE ApiScripts [js ''s1''] (Some (js ''Basic dDE='')))
          \<lparr>body_error := Some parse_failed\<rparr>)) = (initial_state, [])"
proof -
  let ?bad = "(sample_request DELETE ApiScripts [js ''s1''] (Some (js ''Basic dDE='')))
                \<lparr>body_error := Some parse_failed\<rparr>"
  have m: "req_mount (sample_request m mt sub auth) = mt"
          "authorization (sample_request m mt sub auth) = auth"
          "req_method (sample_request m mt sub auth) = m"
          "body_error (sample_request m mt sub auth) = None" for m mt sub auth
    by (simp_all add: sample_request_def)
  have n: "\<not> startsWith (js ''bearer t1'') (js ''Bearer '')"
          "\<not> startsWith (js ''Basic dDE='') (js ''Bearer '')"
    by (simp_all add: startsWith_def js_def)
  have e: "statusCode parse_failed = Some 400" by (simp add: parse_failed_def)
  have a: "status (fst (app sample_platform sample_config initial_state 7
       (sample_request POST ApiGenerateResearch [] None))) = 401
   \<and> payload (fst (app sample_platform sample_config initial_state 7
       (sample_request POST ApiGenerateResearch [] None)))
       = JsonError (Text (js ''Missing or invalid authorization header''))
   \<and> snd (app sample_platform sample_config initial_state 7
       (sample_request POST ApiGenerateResearch [] None)) = (initial_state, [])"
    using missing_bearer_stops_before_the_limiter[of "sample_request POST ApiGenerateResearch [] None"
            sample_platform sample_config initial_state 7 parse_failed]
    by (simp add: m prod_eq_iff)
  have b: "status (fst (app sample_platform sample_config initial_state 7
       (sample_request POST ApiGenerateAudio [] (Some (js ''bearer t1''))))) = 401"
    using missing_bearer_stops_before_the_limiter[of "sample_request POST ApiGenerateAudio [] (Some (js ''bearer t1''))"
            sample_platform sample_config initial_state 7 parse_failed]
    by (simp add: m n)
  have c: "status (fst (app sample_platform sample_config initial_state 7
       (sample_request OPTIONS ApiScripts [js ''s1''] None))) = 204
     \<and> fst (snd (app sample_platform sample_config initial_state 7
       (sample_request OPTIONS ApiScripts [js ''s1''] None))) = initial_state"
    using missing_bearer_stops_before_the_limiter[of "sample_request OPTIONS ApiScripts [js ''s1''] None"
            sample_platform sample_config initial_state 7 parse_failed]
    by (simp add: m)
  have d: "status (fst (app sample_platform sample_config initial_state 7 ?bad)) = 400
     \<and> snd (app sample_platform sample_config initial_state 7 ?bad) = (initial_state, [])"
    using missing_bearer_stops_before_the_limiter[of ?bad
            sample_platform sample_config initial_state 7 parse_failed]
    by (simp add: m n e prod_eq_iff errorHandler_status)
  show ?thesis using a b c d by blast
qed

text \<open>
  C3 as stated has every such request answered 401. Without an Authorization header, a
  POST whose body is not JSON is answered 400, and an OPTIONS request 204.
\<close>

theorem unparsable_body_counterexample:
  "authorization ((sample_request POST ApiGenerateResearch [] None)\<lparr>body_error := Some parse_failed\<rparr>)
     = None
   \<and> status (fst (app sample_platform sample_config initial_state 7
        ((sample_request POST ApiGenerateResearch [] None)\<lparr>body_error := Some parse_failed\<rparr>))) = 400
   \<and> status (fst (app sample_platform sample_config initial_state 7
        (sample_request OPTIONS ApiScripts [] None))) = 204"
  by (simp add: app_def cors_def corsOptions_def sample_config_def sample_request_def js_def
      express_json_def errorHandler_def parse_failed_def)

subsection \<open>The scripts resource\<close>

lemma no_owned_row:
  "(\<forall>r\<in>set db. row_id r = i \<longrightarrow> user_id r \<noteq> u) \<Longrightarrow> filter (owned i u) db = []"
  by (auto simp: filter_empty_conv owned_def)

lemma pg_select_cong:
  "filter cond db1 = filter cond db2 \<Longrightarrow> pg_select P call db1 cond = pg_select P call db2 cond"
  by (cases "store_fault P call") (simp_all add: pg_select_def)

lemma get_one_depends_on_owned:
  assumes "filter (owned i (uid u)) db1 = filter (owned i (uid u)) db2"
  shows "scripts_get_one P cfg db1 (Some u) i = scripts_get_one P cfg db2 (Some u) i"
  by (simp add: scripts_get_one_def pg_select_cong[OF assms])

lemma delete_one_depends_on_owned:
  assumes "filter (owned i (uid u)) db1 = filter (owned i (uid u)) db2"
  shows "fst (scripts_delete_one P cfg db1 (Some u) i) = fst (scripts_delete_one P cfg db2 (Some u) i)"
  by (auto simp: scripts_delete_one_def pg_select_cong[OF assms] pg_delete_def
           split: option.splits sum.splits pg_fault.splits)

lemma get_one_not_found:
  assumes "scripts_supabase cfg" "filter (owned i (uid u)) db = []"
      and "store_fault P (SelectScript i (uid u)) = None"
  shows "scripts_get_one P cfg db (Some u) i
           = (error_response 404 ''Script not found'', [Store (SelectScript i (uid u))])"
  using assms by (simp add: scripts_get_one_def pg_select_def)

lemma delete_one_not_found:
  assumes "scripts_supabase cfg" "filter (owned i (uid u)) db = []"
      and "\<forall>e. store_fault P (SelectId i (uid u)) \<noteq> Some (PgThrows e)"
  shows "scripts_delete_one P cfg db (Some u) i
           = (error_response 404 ''Script not found'', db, [Store (SelectId i (uid u))])"
  using assms
  by (auto simp: scripts_delete_one_def pg_select_def split: option.splits pg_fault.splits)

lemma delete_one_success:
  assumes "status (fst (scripts_delete_one P cfg db (Some u) i)) = 200"
  shows "fst (snd (scripts_delete_one P cfg db (Some u) i)) = filter (\<lambda>r. \<not> owned i (uid u) r) db"
  using assms
  by (auto simp: scripts_delete_one_def pg_delete_def
           split: if_splits option.splits sum.splits pg_fault.splits)

text \<open>
  C6. For an authenticated caller \<open>u\<close> and an id \<open>i\<close>: a table in which no record has
  the id and a table in which the record of that id belongs to someone else give the
  same answer to GET and to DELETE, whatever the store does with the call. When the
  store carries the call out, that answer is 404, \<open>Script not found\<close>, and DELETE leaves
  the table as it is. After a DELETE that answered 200, a second DELETE of the same id by
  the same caller answers 404, unless the store client throws.
\<close>

theorem missing_and_foreign_scripts_are_not_found:
  assumes "scripts_supabase cfg"
  shows "((\<forall>r\<in>set db1. row_id r \<noteq> i) \<and> (\<forall>r\<in>set db2. row_id r = i \<longrightarrow> user_id r \<noteq> uid u)
          \<longrightarrow> scripts_get_one P cfg db1 (Some u) i = scripts_get_one P cfg db2 (Some u) i
            \<and> fst (scripts_delete_one P cfg db1 (Some u) i)
                = fst (scripts_delete_one P cfg db2 (Some u) i))
       \<and> ((\<forall>r\<in>set db. row_id r = i \<longrightarrow> user_id r \<noteq> uid u)
            \<and> store_fault P (SelectScript i (uid u)) = None
            \<and> store_fault P (SelectId i (uid u)) = None
          \<longrightarrow> fst (scripts_get_one P cfg db (Some u) i) = error_response 404 ''Script not found''
            \<and> scripts_delete_one P cfg db (Some u) i
                = (error_response 404 ''Script not found'', db, [Store (SelectId i (uid u))])
            \<and> status (error_response 404 ''Script not found'') = 404)
       \<and> (status (fst (scripts_delete_one P cfg db (Some u) i)) = 200
            \<and> (\<forall>e. store_fault P' (SelectId i (uid u)) \<noteq> Some (PgThrows e))
          \<longrightarrow> fst (scripts_delete_one P' cfg (fst (snd (scripts_delete_one P cfg db (Some u) i)))
                     (Some u) i)
                = error_response 404 ''Script not found'')"
proof (intro conjI impI)
  assume a: "(\<forall>r\<in>set db1. row_id r \<noteq> i) \<and> (\<forall>r\<in>set db2. row_id r = i \<longrightarrow> user_id r \<noteq> uid u)"
  then have e: "filter (owned i (uid u)) db1 = filter (owned i (uid u)) db2"
    using no_owned_row[of db1 i "uid u"] no_owned_row[of db2 i "uid u"] by simp
  show "scripts_get_one P cfg db1 (Some u) i = scripts_get_one P cfg db2 (Some u) i"
    by (rule get_one_depends_on_owned[OF e])
  show "fst (scripts_delete_one P cfg db1 (Some u) i) = fst (scripts_delete_one P cfg db2 (Some u) i)"
    by (rule delete_one_depends_on_owned[OF e])
next
  assume a: "(\<forall>r\<in>set db. row_id r = i \<longrightarrow> user_id r \<noteq> uid u)
            \<and> store_fault P (SelectScript i (uid u)) = None
            \<and> store_fault P (SelectId i (uid u)) = None"
  then have e: "filter (owned i (uid u)) db = []" using no_owned_row[of db i "uid u"] by simp
  show "fst (scripts_get_one P cfg db (Some u) i) = error_response 404 ''Script not found''"
    using a by (simp add: get_one_not_found[OF assms e])
  show "scripts_delete_one P cfg db (Some u) i
          = (error_response 404 ''Script not found'', db, [Store (SelectId i (uid u))])"
    using a by (intro delete_one_not_found[OF assms e]) simp
  show "status (error_response 404 ''Script not found'') = 404" by simp
next
  assume a: "status (fst (scripts_delete_one P cfg db (Some u) i)) = 200
            \<and> (\<forall>e. store_fault P' (SelectId i (uid u)) \<noteq> Some (PgThrows e))"
  then have "fst (snd (scripts_delete_one P cfg db (Some u) i)) = filter (\<lambda>r. \<not> owned i (uid u) r) db"
    by (simp add: delete_one_success)
  moreover have "filter (owned i (uid u)) (filter (\<lambda>r. \<not> owned i (uid u) r) db) = []"
    by (simp add: filter_empty_conv)
  ultimately show "fst (scripts_delete_one P' cfg (fst (snd (scripts_delete_one P cfg db (Some u) i)))
                     (Some u) i) = error_response 404 ''Script not found''"
    using a by (simp add: delete_one_not_found[OF assms])
qed

lemma sample_table_rows:
  "map row_id sample_table = [js ''s1'', js ''s2'', js ''s3'']"
  "map user_id sample_table = [js ''alice'', js ''bob'', js ''alice'']"
  "map created_at sample_table = [10, 20, 30]"
  by (simp_all add: sample_table_def sample_row_def)

lemma sample_ids_differ:
  "js ''s1'' \<noteq> js ''s2''" "js ''s2'' \<noteq> js ''s3''" "js ''s1'' \<noteq> js ''s3''"
  "js ''alice'' \<noteq> js ''bob''"
  by (simp_all add: js_def)

theorem missing_and_foreign_scripts_are_not_found_witness:
  "scripts_get_one sample_platform sample_config [] (Some alice) (js ''s2'')
     = scripts_get_one sample_platform sample_config sample_table (Some alice) (js ''s2'')
   \<and> fst (scripts_get_one sample_platform sample_config sample_table (Some alice) (js ''s2''))
       = error_response 404 ''Script not found''
   \<and> status (fst (scripts_delete_one sample_platform sample_config sample_table (Some alice)
                    (js ''s1''))) = 200
   \<and> fst (scripts_delete_one sample_platform sample_config
            (fst (snd (scripts_delete_one sample_platform sample_config sample_table (Some alice)
                         (js ''s1''))))
            (Some alice) (js ''s1''))
       = error_response 404 ''Script not found''"
proof -
  have c: "scripts_supabase sample_config" by (simp add: sample_config_def)
  have f: "store_fault sample_platform call = None" for call
    by (simp add: sample_platform_def)
  have h1: "\<forall>r\<in>set []. row_id (r::script_row) \<noteq> js ''s2''" by simp
  have h2: "\<forall>r\<in>set sample_table. row_id r = js ''s2'' \<longrightarrow> user_id r \<noteq> uid alice"
    using sample_ids_differ by (simp add: sample_table_def sample_row_def alice_def)
  have o: "filter (owned (js ''s1'') (uid alice)) sample_table = [sample_row ''s1'' ''alice'' 10]"
    using sample_ids_differ by (simp add: sample_table_def sample_row_def alice_def owned_def)
  have h3: "status (fst (scripts_delete_one sample_platform sample_config sample_table (Some alice)
                    (js ''s1''))) = 200"
    by (simp add: scripts_delete_one_def pg_select_def pg_delete_def c f o)
  show ?thesis
    using missing_and_foreign_scripts_are_not_found[OF c, of "[]" "js ''s2''" sample_table alice
            sample_platform sample_table sample_platform]
          missing_and_foreign_scripts_are_not_found[OF c, of "[]" "js ''s1''" "[]" alice
            sample_platform sample_table sample_platform]
          h1 h2 h3 f
    by simp
qed

lemma insort_key_map_same:
  assumes "\<And>y. k (g y) = k y"
  shows "insort_key k (g x) (map g xs) = map g (insort_key k x xs)"
  by (induction xs) (simp_all add: assms)

lemma sort_key_map_same:
  assumes "\<And>y. k (g y) = k y"
  shows "sort_key k (map g xs) = map g (sort_key k xs)"
  by (induction xs) (simp_all add: insort_key_map_same[where k = k and g = g, OF assms])

lemma order_created_at_desc_mset: "mset (order_created_at_desc rows) = mset rows"
  by (simp add: order_created_at_desc_def)

lemma order_created_at_desc_sorted:
  "sorted_wrt (\<lambda>a b. created_at b \<le> created_at a) (order_created_at_desc rows)"
proof -
  have "sorted (map created_at (sort_key created_at rows))" by (rule sorted_sort_key)
  then have "sorted_wrt (\<lambda>a b. created_at a \<le> created_at b) (sort_key created_at rows)"
    by (simp add: sorted_map)
  then show ?thesis by (simp add: order_created_at_desc_def sorted_wrt_rev)
qed

lemma summary_ignores_script_data [simp]: "summary (r\<lparr>script_data := x\<rparr>) = summary r"
  by (simp add: summary_def)

lemma get_all_ignores_script_data:
  "scripts_get_all P cfg (map (\<lambda>r. r\<lparr>script_data := g r\<rparr>) db) user = scripts_get_all P cfg db user"
proof -
  let ?h = "\<lambda>r. r\<lparr>script_data := g r\<rparr>"
  have "map summary (order_created_at_desc (filter (\<lambda>r. user_id r = u) (map ?h db)))
        = map summary (order_created_at_desc (filter (\<lambda>r. user_id r = u) db))" for u
  proof -
    have "filter (\<lambda>r. user_id r = u) (map ?h db) = map ?h (filter (\<lambda>r. user_id r = u) db)"
      by (simp add: filter_map comp_def)
    moreover have "sort_key created_at (map ?h xs) = map ?h (sort_key created_at xs)" for xs
      by (rule sort_key_map_same) simp
    ultimately show ?thesis
      by (simp add: order_created_at_desc_def rev_map comp_def)
  qed
  then show ?thesis
    by (simp add: scripts_get_all_def pg_select_def split: option.splits)
qed

text \<open>
  C9. When the store carries the list query out, GET /api/scripts answers 200 with one
  entry for each of the caller's records and for no other (the records taken as a
  multiset), each entry holding the id, topic, duration, style and the two timestamps
  of its record, in descending order of the records' creation time. An entry has no
  dialogue payload: changing \<open>script_data\<close> in the table changes nothing in the answer.
\<close>

theorem list_returns_own_summaries:
  assumes "scripts_supabase cfg" and "store_fault P (SelectSummaries (uid u)) = None"
  shows "(\<exists>rows. fst (scripts_get_all P cfg db (Some u))
                  = \<lparr>status = 200, headers = [],
                     payload = JsonScripts
                       (map (\<lambda>r. \<lparr>sum_id = row_id r, sum_topic = row_topic r,
                                  sum_duration_minutes = duration_minutes r,
                                  sum_style = row_style r, sum_created_at = created_at r,
                                  sum_updated_at = updated_at r\<rparr>) rows)\<rparr>
            \<and> mset rows = mset (filter (\<lambda>r. user_id r = uid u) db)
            \<and> sorted_wrt (\<lambda>a b. created_at b \<le> created_at a) rows)
         \<and> scripts_get_all P cfg (map (\<lambda>r. r\<lparr>script_data := g r\<rparr>) db) (Some u)
             = scripts_get_all P cfg db (Some u)"
proof -
  let ?rows = "order_created_at_desc (filter (\<lambda>r. user_id r = uid u) db)"
  have "fst (scripts_get_all P cfg db (Some u))
          = \<lparr>status = 200, headers = [],
             payload = JsonScripts
               (map (\<lambda>r. \<lparr>sum_id = row_id r, sum_topic = row_topic r,
                          sum_duration_minutes = duration_minutes r,
                          sum_style = row_style r, sum_created_at = created_at r,
                          sum_updated_at = updated_at r\<rparr>) ?rows)\<rparr>"
    using assms by (simp add: scripts_get_all_def pg_select_def json_response_def summary_def)
  moreover have "mset ?rows = mset (filter (\<lambda>r. user_id r = uid u) db)"
    by (rule order_created_at_desc_mset)
  moreover have "sorted_wrt (\<lambda>a b. created_at b \<le> created_at a) ?rows"
    by (rule order_created_at_desc_sorted)
  ultimately show ?thesis
    using get_all_ignores_script_data[of P cfg g db "Some u"] by blast
qed

theorem list_returns_own_summaries_witness:
  "scripts_supabase sample_config
   \<and> store_fault sample_platform (SelectSummaries (uid alice)) = None
   \<and> fst (scripts_get_all sample_platform sample_config sample_table (Some alice))
       = \<lparr>status = 200, headers = [],
          payload = JsonScripts
            [\<lparr>sum_id = js ''s3'', sum_topic = js ''Tea'', sum_duration_minutes = 5,
              sum_style = js ''documentary'', sum_created_at = 30, sum_updated_at = 30\<rparr>,
             \<lparr>sum_id = js ''s1'', sum_topic = js ''Tea'', sum_duration_minutes = 5,
              sum_style = js ''documentary'', sum_created_at = 10, sum_updated_at = 10\<rparr>]\<rparr>"
proof -
  have c: "scripts_supabase sample_config" by (simp add: sample_config_def)
  have f: "store_fault sample_platform (SelectSummaries (uid alice)) = None"
    by (simp add: sample_platform_def)
  have o: "filter (\<lambda>r. user_id r = uid alice) sample_table
             = [sample_row ''s1'' ''alice'' 10, sample_row ''s3'' ''alice'' 30]"
    using sample_ids_differ by (simp add: sample_table_def sample_row_def alice_def)
  obtain rows where r:
    "fst (scripts_get_all sample_platform sample_config sample_table (Some alice))
       = \<lparr>status = 200, headers = [],
          payload = JsonScripts
            (map (\<lambda>r. \<lparr>sum_id = row_id r, sum_topic = row_topic r,
                       sum_duration_minutes = duration_minutes r,
                       sum_style = row_style r, sum_created_at = created_at r,
                       sum_updated_at = updated_at r\<rparr>) rows)\<rparr>"
    "mset rows = mset (filter (\<lambda>r. user_id r = uid alice) sample_table)"
    "sorted_wrt (\<lambda>a b. created_at b \<le> created_at a) rows"
    using list_returns_own_summaries[OF c f, of sample_table] by blast
  have "length rows = 2" using r(2) o by (metis length_Cons list.size(3) size_mset One_nat_def Suc_1)
  then obtain a b where ab: "rows = [a, b]"
    by (metis (no_types) length_0_conv length_Suc_conv numeral_2_eq_2)
  have "{#a, b#} = {#sample_row ''s1'' ''alice'' 10, sample_row ''s3'' ''alice'' 30#}"
    using r(2) o ab by (simp add: add_mset_commute)
  moreover have "created_at b \<le> created_at a" using r(3) ab by simp
  ultimately have "a = sample_row ''s3'' ''alice'' 30 \<and> b = sample_row ''s1'' ''alice'' 10"
    by (auto simp: add_eq_conv_ex sample_row_def)
  then show ?thesis using c f r(1) ab by (simp add: sample_row_def)
qed

subsection \<open>The rate limiter\<close>

lemma passed_Nil [simp]: "passed opts hits [] = []"
  by (simp add: passed_def)

lemma passed_Cons:
  "passed opts hits ((now, key) # rest) =
     (if fst (rateLimit opts hits now key) then [(now, key)] else [])
       @ passed opts (snd (rateLimit opts hits now key)) rest"
  by (simp add: passed_def)

lemma passed_subseq: "set (passed opts hits es) \<subseteq> set es"
  by (auto simp: passed_def dest: set_zip_leftD)

lemma rateLimit_other [simp]: "k \<noteq> key \<Longrightarrow> snd (rateLimit opts hits now key) k = hits k"
  by (simp add: rateLimit_def)

lemma rateLimit_same [simp]:
  "snd (rateLimit opts hits now key) key
     = filter (\<lambda>t. now < t + windowMs opts) (hits key) @ [now]"
  by (simp add: rateLimit_def)

lemma rateLimit_passes:
  "fst (rateLimit opts hits now key)
     \<longleftrightarrow> length (filter (\<lambda>t. now < t + windowMs opts) (hits key)) < max_opt opts"
  by (auto simp: rateLimit_def)

lemma none_after_window:
  "\<forall>e\<in>set es. a + windowMs opts \<le> fst e \<Longrightarrow> filter (in_window opts key a) (passed opts hits es) = []"
proof -
  assume far: "\<forall>e\<in>set es. a + windowMs opts \<le> fst e"
  have "\<not> in_window opts key a e" if "e \<in> set (passed opts hits es)" for e
  proof -
    have "e \<in> set es" using that passed_subseq[of opts hits es] by blast
    then have "a + windowMs opts \<le> fst e" using far by blast
    then show ?thesis by (simp add: in_window_def)
  qed
  then show ?thesis by (simp add: filter_empty_conv)
qed

lemma window_bound_from:
  assumes "sorted (map fst es)"
      and "\<forall>t'\<in>set (hits key). \<forall>e\<in>set es. t' \<le> fst e"
  shows "length (filter (in_window opts key a) (passed opts hits es))
           \<le> max_opt opts - length (filter (\<lambda>t'. a \<le> t') (hits key))"
  using assms
proof (induction es arbitrary: hits)
  case Nil
  then show ?case by simp
next
  case (Cons e es)
  obtain now k where e: "e = (now, k)" by (cases e)
  let ?hits = "snd (rateLimit opts hits now k)"
  have sorted: "sorted (map fst es)" and later: "\<forall>x\<in>set es. now \<le> fst x"
    using Cons.prems(1) e by auto
  show ?case
  proof (cases "k = key")
    case False
    have "\<forall>t'\<in>set (?hits key). \<forall>e\<in>set es. t' \<le> fst e"
      using Cons.prems(2) False by simp
    from Cons.IH[of ?hits, OF sorted this] show ?thesis
      using False by (simp add: e passed_Cons in_window_def)
  next
    case True
    have old: "\<forall>t'\<in>set (hits key). t' \<le> now" using Cons.prems(2) e by simp
    have pre: "\<forall>t'\<in>set (?hits key). \<forall>e\<in>set es. t' \<le> fst e"
      using Cons.prems(2) later True by auto
    note IH = Cons.IH[of ?hits, OF sorted pre]
    consider (before) "now < a" | (inside) "a \<le> now" "now < a + windowMs opts"
      | (after) "a + windowMs opts \<le> now" by linarith
    then show ?thesis
    proof cases
      case before
      have "filter (\<lambda>t'. a \<le> t') (hits key) = []"
        using old before by (auto simp: filter_empty_conv)
      moreover have "filter (\<lambda>t'. a \<le> t') (?hits key) = []"
        using old before True by (auto simp: filter_empty_conv)
      ultimately show ?thesis
        using IH before True by (simp add: e passed_Cons in_window_def)
    next
      case inside
      have keep: "filter (\<lambda>t'. a \<le> t') (filter (\<lambda>t. now < t + windowMs opts) (hits key))
                    = filter (\<lambda>t'. a \<le> t') (hits key)"
        using inside by (auto intro!: filter_cong)
      have keep': "filter (\<lambda>x. now < x + windowMs opts \<and> a \<le> x) (hits key)
                    = filter (\<lambda>t'. a \<le> t') (hits key)"
        using inside by (auto intro!: filter_cong)
      have grow: "length (filter (\<lambda>t'. a \<le> t') (?hits key))
                    = Suc (length (filter (\<lambda>t'. a \<le> t') (hits key)))"
        using inside True by (simp add: keep')
      show ?thesis
      proof (cases "fst (rateLimit opts hits now k)")
        case False
        then show ?thesis
          using IH grow True by (simp add: e passed_Cons)
      next
        case pass: True
        have "length (filter (\<lambda>t'. a \<le> t') (hits key))
                \<le> length (filter (\<lambda>t. now < t + windowMs opts) (hits key))"
          using length_filter_le[of "\<lambda>t'. a \<le> t'" "filter (\<lambda>t. now < t + windowMs opts) (hits key)"]
          by (simp only: keep)
        then have "length (filter (\<lambda>t'. a \<le> t') (hits key)) < max_opt opts"
          using pass True by (simp add: rateLimit_passes)
        then show ?thesis
          using IH grow True pass inside by (simp add: e passed_Cons in_window_def)
      qed
    next
      case after
      have "\<forall>x\<in>set (e # es). a + windowMs opts \<le> fst x"
        using after later e by auto
      then have "filter (in_window opts key a) (passed opts hits (e # es)) = []"
        by (rule none_after_window)
      then show ?thesis by simp
    qed
  qed
qed

lemma window_bound:
  assumes "sorted (map fst es)"
  shows "length (filter (in_window opts key a) (passed opts (\<lambda>k. []) es)) \<le> max_opt opts"
  using window_bound_from[OF assms, of "\<lambda>k. []" key opts a] by simp

lemma route_run_length [simp]: "length (route_run router st evs) = length evs"
  by (induction evs arbitrary: st) auto

lemma route_run_limiter:
  assumes "\<And>st now req. (now, req) \<in> set evs \<Longrightarrow>
             (status (fst (router st now req)) \<noteq> 429) = fst (rateLimit opts (proj st) now (ip req))
             \<and> proj (fst (snd (router st now req))) = snd (rateLimit opts (proj st) now (ip req))"
  shows "map (\<lambda>out. status (fst out) \<noteq> 429) (route_run router st evs)
           = limiter_run opts (proj st) (map (\<lambda>e. (fst e, ip (snd e))) evs)"
  using assms
proof (induction evs arbitrary: st)
  case Nil
  then show ?case by simp
next
  case (Cons e evs)
  obtain now req where e: "e = (now, req)" by (cases e)
  have step: "(status (fst (router st now req)) \<noteq> 429) = fst (rateLimit opts (proj st) now (ip req))"
             "proj (fst (snd (router st now req))) = snd (rateLimit opts (proj st) now (ip req))"
    using Cons.prems[of now req st] e by simp_all
  have "map (\<lambda>out. status (fst out) \<noteq> 429) (route_run router (fst (snd (router st now req))) evs)
          = limiter_run opts (proj (fst (snd (router st now req)))) (map (\<lambda>e. (fst e, ip (snd e))) evs)"
    by (rule Cons.IH) (use Cons.prems in auto)
  then show ?case
    by (simp add: e step)
qed

lemma served_count:
  assumes "map (\<lambda>out. status (fst out) \<noteq> 429) outs
             = limiter_run opts hits (map (\<lambda>e. (fst e, ip (snd e))) evs)"
      and "length outs = length evs" and "windowMs opts = 15 * 60 * 1000"
  shows "length (filter (served_in_window key a) (zip evs outs))
           = length (filter (in_window opts key a)
                       (passed opts hits (map (\<lambda>e. (fst e, ip (snd e))) evs)))"
proof -
  let ?f = "\<lambda>e::nat \<times> request. (fst e, ip (snd e))"
  let ?g = "\<lambda>out::response \<times> ext_call list. status (fst out) \<noteq> 429"
  have z: "zip (map ?f evs) (map ?g outs) = map (\<lambda>x. (?f (fst x), ?g (snd x))) (zip evs outs)"
    by (simp add: zip_map_map case_prod_unfold)
  have "passed opts hits (map ?f evs)
          = map fst (filter snd (map (\<lambda>x. (?f (fst x), ?g (snd x))) (zip evs outs)))"
    by (simp only: passed_def assms(1)[symmetric] z)
  also have "\<dots> = map (\<lambda>x. ?f (fst x)) (filter (\<lambda>x. ?g (snd x)) (zip evs outs))"
    by (simp add: filter_map comp_def)
  finally have "filter (in_window opts key a) (passed opts hits (map ?f evs))
      = map (\<lambda>x. ?f (fst x))
          (filter (\<lambda>x. in_window opts key a (?f (fst x))) (filter (\<lambda>x. ?g (snd x)) (zip evs outs)))"
    by (simp add: filter_map comp_def)
  also have "filter (\<lambda>x. in_window opts key a (?f (fst x))) (filter (\<lambda>x. ?g (snd x)) (zip evs outs))
      = filter (served_in_window key a) (zip evs outs)"
    by (auto simp: in_window_def served_in_window_def assms(3) intro!: filter_cong)
  finally show ?thesis by simp
qed

lemma generate_research_post_status:
  "status (fst (generate_research_post P cfg db now user body)) \<in> {200, 400, 500}"
  using generate_and_save_status[of P cfg db now user]
  by (auto simp: generate_research_post_def Let_def style_error_def)

lemma generate_audio_post_status:
  "status (fst (generate_audio_post P cfg body)) \<in> {200, 400, 500}"
  by (cases "generateAudioFromScript P cfg (case map_of body (js ''script'') of Some (JArr ls) \<Rightarrow> ls | _ \<Rightarrow> [])")
     (auto simp: generate_audio_post_def split: option.splits json.splits sum.splits thrown.splits)

lemma research_router_step:
  assumes "req_method req = POST" "subpath req = []"
  shows "(status (fst (generateResearchRouter P cfg st now req user)) \<noteq> 429)
           = fst (rateLimit generateLimiter (generateLimiter_hits st) now (ip req))
         \<and> generateLimiter_hits (fst (snd (generateResearchRouter P cfg st now req user)))
           = snd (rateLimit generateLimiter (generateLimiter_hits st) now (ip req))"
proof (cases "rateLimit generateLimiter (generateLimiter_hits st) now (ip req)")
  case (Pair passes hits)
  obtain res db calls where h:
    "generate_research_post P cfg (scripts_table st) now user (req_body req) = (res, db, calls)"
    by (cases "generate_research_post P cfg (scripts_table st) now user (req_body req)") auto
  have "status res \<noteq> 429"
    using generate_research_post_status[of P cfg "scripts_table st" now user "req_body req"] h
    by auto
  then show ?thesis
    using assms Pair h by (cases passes) (simp_all add: generateResearchRouter_def too_many_requests_def)
qed

lemma audio_router_step:
  assumes "req_method req = POST" "subpath req = []"
  shows "(status (fst (generateAudioRouter P cfg st now req user)) \<noteq> 429)
           = fst (rateLimit audioLimiter (audioLimiter_hits st) now (ip req))
         \<and> audioLimiter_hits (fst (snd (generateAudioRouter P cfg st now req user)))
           = snd (rateLimit audioLimiter (audioLimiter_hits st) now (ip req))"
proof (cases "rateLimit audioLimiter (audioLimiter_hits st) now (ip req)")
  case (Pair passes hits)
  obtain res calls where h: "generate_audio_post P cfg (req_body req) = (res, calls)"
    by (cases "generate_audio_post P cfg (req_body req)") auto
  have "status res \<noteq> 429"
    using generate_audio_post_status[of P cfg "req_body req"] h by auto
  then show ?thesis
    using assms Pair h by (cases passes) (simp_all add: generateAudioRouter_def too_many_requests_def)
qed

lemma research_router_rejects:
  assumes "req_method req = POST" "subpath req = []"
      and "10 \<le> length (filter (\<lambda>t. now < t + 15 * 60 * 1000) (generateLimiter_hits st (ip req)))"
  shows "generateResearchRouter P cfg st now req user
           = (too_many_requests generateLimiter,
              st\<lparr>generateLimiter_hits :=
                   snd (rateLimit generateLimiter (generateLimiter_hits st) now (ip req))\<rparr>, [])"
proof -
  have "\<not> fst (rateLimit generateLimiter (generateLimiter_hits st) now (ip req))"
    using assms(3) by (simp add: rateLimit_passes generateLimiter_def)
  then show ?thesis
    using assms(1,2)
    by (cases "rateLimit generateLimiter (generateLimiter_hits st) now (ip req)")
       (simp add: generateResearchRouter_def)
qed

lemma audio_router_rejects:
  assumes "req_method req = POST" "subpath req = []"
      and "5 \<le> length (filter (\<lambda>t. now < t + 15 * 60 * 1000) (audioLimiter_hits st (ip req)))"
  shows "generateAudioRouter P cfg st now req user
           = (too_many_requests audioLimiter,
              st\<lparr>audioLimiter_hits :=
                   snd (rateLimit audioLimiter (audioLimiter_hits st) now (ip req))\<rparr>, [])"
proof -
  have "\<not> fst (rateLimit audioLimiter (audioLimiter_hits st) now (ip req))"
    using assms(3) by (simp add: rateLimit_passes audioLimiter_def)
  then show ?thesis
    using assms(1,2)
    by (cases "rateLimit audioLimiter (audioLimiter_hits st) now (ip req)")
       (simp add: generateAudioRouter_def)
qed

lemma routers_keep_other_limiter:
  "audioLimiter_hits (fst (snd (generateResearchRouter P cfg st now req user))) = audioLimiter_hits st"
  "generateLimiter_hits (fst (snd (generateAudioRouter P cfg st now req user))) = generateLimiter_hits st"
  by (auto simp: generateResearchRouter_def generateAudioRouter_def split: prod.splits bool.splits)

lemma too_many_requests_sel:
  "status (too_many_requests opts) = 429"
  "payload (too_many_requests generateLimiter)
     = PlainText (js ''Too many script generation requests, please try again later.'')"
  "payload (too_many_requests audioLimiter)
     = PlainText (js ''Too many audio generation requests, please try again later.'')"
  by (simp_all add: too_many_requests_def generateLimiter_def audioLimiter_def)

lemma research_route_window:
  assumes "sorted (map fst evs)"
      and "\<forall>e\<in>set evs. req_method (snd e) = POST \<and> subpath (snd e) = []"
      and "\<forall>t'\<in>set (generateLimiter_hits st0 key). \<forall>e\<in>set evs. t' \<le> fst e"
  shows "length (filter (served_in_window key a)
           (zip evs (route_run (\<lambda>st now req. generateResearchRouter (P now) cfg st now req (user_of req))
                      st0 evs))) \<le> 10"
proof -
  let ?router = "\<lambda>st now req. generateResearchRouter (P now) cfg st now req (user_of req)"
  let ?es = "map (\<lambda>e. (fst e, ip (snd e))) evs"
  have "map (\<lambda>out. status (fst out) \<noteq> 429) (route_run ?router st0 evs)
          = limiter_run generateLimiter (generateLimiter_hits st0) ?es"
    by (rule route_run_limiter) (use assms(2) research_router_step in fastforce)
  then have "length (filter (served_in_window key a) (zip evs (route_run ?router st0 evs)))
          = length (filter (in_window generateLimiter key a)
                      (passed generateLimiter (generateLimiter_hits st0) ?es))"
    by (rule served_count) (simp_all add: generateLimiter_def)
  also have "\<dots> \<le> max_opt generateLimiter - length (filter (\<lambda>t'. a \<le> t') (generateLimiter_hits st0 key))"
    by (rule window_bound_from) (use assms(1,3) in \<open>auto simp: comp_def\<close>)
  finally show ?thesis by (simp add: generateLimiter_def)
qed

lemma audio_route_window:
  assumes "sorted (map fst evs)"
      and "\<forall>e\<in>set evs. req_method (snd e) = POST \<and> subpath (snd e) = []"
      and "\<forall>t'\<in>set (audioLimiter_hits st0 key). \<forall>e\<in>set evs. t' \<le> fst e"
  shows "length (filter (served_in_window key a)
           (zip evs (route_run (\<lambda>st now req. generateAudioRouter (P now) cfg st now req (user_of req))
                      st0 evs))) \<le> 5"
proof -
  let ?router = "\<lambda>st now req. generateAudioRouter (P now) cfg st now req (user_of req)"
  let ?es = "map (\<lambda>e. (fst e, ip (snd e))) evs"
  have "map (\<lambda>out. status (fst out) \<noteq> 429) (route_run ?router st0 evs)
          = limiter_run audioLimiter (audioLimiter_hits st0) ?es"
    by (rule route_run_limiter) (use assms(2) audio_router_step in fastforce)
  then have "length (filter (served_in_window key a) (zip evs (route_run ?router st0 evs)))
          = length (filter (in_window audioLimiter key a)
                      (passed audioLimiter (audioLimiter_hits st0) ?es))"
    by (rule served_count) (simp_all add: audioLimiter_def)
  also have "\<dots> \<le> max_opt audioLimiter - length (filter (\<lambda>t'. a \<le> t') (audioLimiter_hits st0 key))"
    by (rule window_bound_from) (use assms(1,3) in \<open>auto simp: comp_def\<close>)
  finally show ?thesis by (simp add: audioLimiter_def)
qed

text \<open>
  C7. Take any sequence of POST requests that reach a route's router, in order of
  arrival, from a state whose recorded hits of the client are not later than the
  arrivals, whatever the services answer and whoever the users are. In any window of
  15 minutes, the requests of one client that are not answered 429 number at most 10
  on the generate-research route and at most 5 on the generate-audio route. A request
  of a client who has 10 (respectively 5) hits in the last 15 minutes is answered 429
  with the route's message; the handler is not run: no external call is made and only
  that limiter's hits change. Each router leaves the other limiter's hits alone.
\<close>

theorem rate_limits_hold:
  assumes "sorted (map fst evs)"
      and "\<forall>e\<in>set evs. req_method (snd e) = POST \<and> subpath (snd e) = []"
      and "\<forall>t'\<in>set (generateLimiter_hits st0 key). \<forall>e\<in>set evs. t' \<le> fst e"
      and "\<forall>t'\<in>set (audioLimiter_hits st0 key). \<forall>e\<in>set evs. t' \<le> fst e"
  shows "length (filter (served_in_window key a)
           (zip evs (route_run (\<lambda>st now req. generateResearchRouter (P now) cfg st now req (user_of req))
                      st0 evs))) \<le> 10
       \<and> length (filter (served_in_window key a)
           (zip evs (route_run (\<lambda>st now req. generateAudioRouter (P now) cfg st now req (user_of req))
                      st0 evs))) \<le> 5
       \<and> (req_method req = POST \<and> subpath req = []
            \<and> 10 \<le> length (filter (\<lambda>t. now < t + 15 * 60 * 1000) (generateLimiter_hits st (ip req)))
          \<longrightarrow> generateResearchRouter Q cfg st now req user
               = (too_many_requests generateLimiter,
                  st\<lparr>generateLimiter_hits :=
                       snd (rateLimit generateLimiter (generateLimiter_hits st) now (ip req))\<rparr>, []))
       \<and> (req_method req = POST \<and> subpath req = []
            \<and> 5 \<le> length (filter (\<lambda>t. now < t + 15 * 60 * 1000) (audioLimiter_hits st (ip req)))
          \<longrightarrow> generateAudioRouter Q cfg st now req user
               = (too_many_requests audioLimiter,
                  st\<lparr>audioLimiter_hits :=
                       snd (rateLimit audioLimiter (audioLimiter_hits st) now (ip req))\<rparr>, []))
       \<and> status (too_many_requests generateLimiter) = 429
       \<and> status (too_many_requests audioLimiter) = 429
       \<and> payload (too_many_requests generateLimiter)
           = PlainText (js ''Too many script generation requests, please try again later.'')
       \<and> payload (too_many_requests audioLimiter)
           = PlainText (js ''Too many audio generation requests, please try again later.'')
       \<and> audioLimiter_hits (fst (snd (generateResearchRouter Q cfg st now req user)))
           = audioLimiter_hits st
       \<and> generateLimiter_hits (fst (snd (generateAudioRouter Q cfg st now req user)))
           = generateLimiter_hits st"
  using research_route_window[OF assms(1,2,3), of a P cfg user_of]
        audio_route_window[OF assms(1,2,4), of a P cfg user_of]
        research_router_rejects[of req now st Q cfg user]
        audio_router_rejects[of req now st Q cfg user]
        too_many_requests_sel routers_keep_other_limiter[of Q cfg st now req user]
  by blast


lemma burst_times: "map fst (burst mt n) = map (\<lambda>k. k * 1000) [0..<n]"
  by (simp add: burst_def comp_def)

lemma burst_sorted: "sorted (map fst (burst mt n))"
  unfolding burst_times by (rule sorted_map[THEN iffD2]) (simp add: sorted_wrt_iff_nth_less)

lemma burst_requests: "\<forall>e\<in>set (burst mt n). req_method (snd e) = POST \<and> subpath (snd e) = []"
  by (auto simp: burst_def sample_request_def)

text \<open>
  Eleven requests of one client to the generate-research route, one per second, from
  the initial state: ten are served and the eleventh is answered 429.
\<close>

lemma eleventh_request_is_limited: "map (\<lambda>out. status (fst out))
     (route_run (\<lambda>st now req. generateResearchRouter sample_platform sample_config st now req (Some alice))
        initial_state (burst ApiGenerateResearch 11))
   = [200, 200, 200, 200, 200, 200, 200, 200, 200, 200, 429]"
  by (simp add: burst_def upt_rec generateResearchRouter_def sample_request_def rateLimit_def generateLimiter_def
      initial_state_def generate_research_post_def sample_body_def js_def error_response_def json_response_def
      too_many_requests_def Let_def typeof_string_def typeof_number_def trim_def isWhiteSpace_def
      sample_platform_def ascii_lower_def validStyles_def generate_and_save_def generatePodcastScript_def
      ok_def sample_config_def pg_insert_def alice_def split_def)

theorem rate_limits_hold_witness:
  "sorted (map fst (burst ApiGenerateResearch 11))
   \<and> length (filter (served_in_window (js ''10.0.0.1'') 0)
        (zip (burst ApiGenerateResearch 11)
           (route_run (\<lambda>st now req. generateResearchRouter sample_platform sample_config st now req (Some alice))
              initial_state (burst ApiGenerateResearch 11)))) \<le> 10
   \<and> generateResearchRouter sample_platform sample_config busy_state 10000
        (sample_request POST ApiGenerateResearch [] (Some (js ''Bearer t1''))) (Some alice)
      = (too_many_requests generateLimiter,
         busy_state\<lparr>generateLimiter_hits :=
            snd (rateLimit generateLimiter (generateLimiter_hits busy_state) 10000 (js ''10.0.0.1''))\<rparr>, [])
   \<and> generateAudioRouter sample_platform sample_config busy_state 5000
        (sample_request POST ApiGenerateAudio [] (Some (js ''Bearer t1''))) (Some alice)
      = (too_many_requests audioLimiter,
         busy_state\<lparr>audioLimiter_hits :=
            snd (rateLimit audioLimiter (audioLimiter_hits busy_state) 5000 (js ''10.0.0.1''))\<rparr>, [])
   \<and> status (too_many_requests generateLimiter) = 429
   \<and> map (\<lambda>out. status (fst out))
        (route_run (\<lambda>st now req. generateResearchRouter sample_platform sample_config st now req (Some alice))
           initial_state (burst ApiGenerateResearch 11))
      = [200, 200, 200, 200, 200, 200, 200, 200, 200, 200, 429]"
proof -
  let ?req = "\<lambda>mt. sample_request POST mt [] (Some (js ''Bearer t1''))"
  have h1: "sorted (map fst (burst ApiGenerateResearch 11))" by (rule burst_sorted)
  have h2: "\<forall>e\<in>set (burst ApiGenerateResearch 11). req_method (snd e) = POST \<and> subpath (snd e) = []"
    by (rule burst_requests)
  have h3: "\<forall>t'\<in>set (generateLimiter_hits initial_state (js ''10.0.0.1'')).
              \<forall>e\<in>set (burst ApiGenerateResearch 11). t' \<le> fst e"
           "\<forall>t'\<in>set (audioLimiter_hits initial_state (js ''10.0.0.1'')).
              \<forall>e\<in>set (burst ApiGenerateResearch 11). t' \<le> fst e"
    by (simp_all add: initial_state_def)
  have r: "req_method (?req mt) = POST" "subpath (?req mt) = []" "ip (?req mt) = js ''10.0.0.1''" for mt
    by (simp_all add: sample_request_def)
  have u: "[0..<10] = [0, 1, 2, 3, 4, 5, 6, 7, 8, 9]" "[0..<5] = [0, 1, 2, 3, 4]"
    by (simp_all add: upt_rec)
  have b: "10 \<le> length (filter (\<lambda>t. 10000 < t + 15 * 60 * 1000)
                    (generateLimiter_hits busy_state (ip (?req ApiGenerateResearch))))"
          "5 \<le> length (filter (\<lambda>t. 5000 < t + 15 * 60 * 1000)
                    (audioLimiter_hits busy_state (ip (?req ApiGenerateAudio))))"
    by (simp_all add: busy_state_def u)
  have g: "generateResearchRouter sample_platform sample_config busy_state 10000
             (?req ApiGenerateResearch) (Some alice)
      = (too_many_requests generateLimiter,
         busy_state\<lparr>generateLimiter_hits :=
            snd (rateLimit generateLimiter (generateLimiter_hits busy_state) 10000 (js ''10.0.0.1''))\<rparr>, [])"
    using rate_limits_hold[OF h1 h2 h3, where req = "?req ApiGenerateResearch" and now = 10000 and st = busy_state
            and a = 0 and P = "\<lambda>now. sample_platform" and cfg = sample_config
            and user_of = "\<lambda>req. Some alice" and Q = sample_platform and user = "Some alice"]
          b(1) r
    by simp
  have au: "generateAudioRouter sample_platform sample_config busy_state 5000
             (?req ApiGenerateAudio) (Some alice)
      = (too_many_requests audioLimiter,
         busy_state\<lparr>audioLimiter_hits :=
            snd (rateLimit audioLimiter (audioLimiter_hits busy_state) 5000 (js ''10.0.0.1''))\<rparr>, [])"
    using rate_limits_hold[OF h1 h2 h3, where req = "?req ApiGenerateAudio" and now = 5000 and st = busy_state
            and a = 0 and P = "\<lambda>now. sample_platform" and cfg = sample_config
            and user_of = "\<lambda>req. Some alice" and Q = sample_platform and user = "Some alice"]
          b(2) r
    by simp
  show ?thesis
    using h1 g au eleventh_request_is_limited
      rate_limits_hold[OF h1 h2 h3, where req = "?req ApiGenerateResearch" and now = 10000 and st = busy_state
            and a = 0 and P = "\<lambda>now. sample_platform" and cfg = sample_config
            and user_of = "\<lambda>req. Some alice" and Q = sample_platform and user = "Some alice"]
    by simp
qed

end
